theory Spec2Isabelle
  imports Main "HOL-Library.Word"
begin

unbundle bit_operations_syntax

section \<open>LIS3MDL magnetometer driver: data model\<close>

text \<open>
  The driver works on \<open>uint8_t\<close> register bytes and \<open>uint16_t\<close> samples. C promotes a
  \<open>uint8_t\<close> operand to \<open>int\<close> before \<open>&\<close>, \<open>|\<close>, \<open><<\<close>, \<open>>>\<close>, \<open>~\<close> and comparisons;
  every intermediate value of this driver lies between \<open>-2\<close> and \<open>65535\<close>, so \<open>int\<close>
  arithmetic never overflows and is modelled by HOL's \<open>int\<close>. \<open>uint\<close> is the promotion,
  \<open>word_of_int\<close> the conversion back on assignment to a \<open>uint8_t\<close> or \<open>uint16_t\<close>.
\<close>

type_synonym u8 = "8 word"
type_synonym u16 = "16 word"

subsection \<open>magnetometer.h\<close>

datatype status_mag_t = STATUS_MAG_OK | STATUS_MAG_ERROR | STATUS_BUS_ERROR

definition GET_BIT :: "int \<Rightarrow> int \<Rightarrow> nat \<Rightarrow> int" where
  "GET_BIT data msk pos = drop_bit pos (data AND msk)"

definition SET_BIT :: "int \<Rightarrow> int \<Rightarrow> nat \<Rightarrow> int" where
  "SET_BIT data msk pos = push_bit pos data AND msk"

definition REG_CTRL_REG_1 :: u8 where "REG_CTRL_REG_1 = 0x20"
definition REG_CTRL_REG_2 :: u8 where "REG_CTRL_REG_2 = 0x21"
definition I2C_BUS_ADDR :: u8 where "I2C_BUS_ADDR = 0x1C"
definition NUM_OF_BYTES_2 :: nat where "NUM_OF_BYTES_2 = 2"
definition NUM_OF_BYTES_1 :: nat where "NUM_OF_BYTES_1 = 1"

definition REG_CTRL_REG2_BIT_MASK_FS1_FS0 :: int where "REG_CTRL_REG2_BIT_MASK_FS1_FS0 = 0x60"
definition REG_CTRL_REG2_BIT_POS_FS1_FS0 :: nat where "REG_CTRL_REG2_BIT_POS_FS1_FS0 = 5"

definition RANGE_4_GAUSS :: int where "RANGE_4_GAUSS = 0"
definition RANGE_8_GAUSS :: int where "RANGE_8_GAUSS = 1"
definition RANGE_12_GAUSS :: int where "RANGE_12_GAUSS = 2"
definition RANGE_16_GAUSS :: int where "RANGE_16_GAUSS = 3"

definition DATARATE_0_625_Hz :: int where "DATARATE_0_625_Hz = 0"
definition DATARATE_1_25_Hz :: int where "DATARATE_1_25_Hz = 1"
definition DATARATE_2_5_Hz :: int where "DATARATE_2_5_Hz = 2"
definition DATARATE_5_Hz :: int where "DATARATE_5_Hz = 3"
definition DATARATE_10_Hz :: int where "DATARATE_10_Hz = 4"
definition DATARATE_20_Hz :: int where "DATARATE_20_Hz = 5"
definition DATARATE_40_Hz :: int where "DATARATE_40_Hz = 6"
definition DATARATE_80_Hz :: int where "DATARATE_80_Hz = 7"
definition DATARATE_155_Hz :: int where "DATARATE_155_Hz = 8"
definition DATARATE_300_Hz :: int where "DATARATE_300_Hz = 9"
definition DATARATE_560_Hz :: int where "DATARATE_560_Hz = 10"
definition DATARATE_1000_Hz :: int where "DATARATE_1000_Hz = 11"

definition LOW_POWER_MODE :: int where "LOW_POWER_MODE = 0"
definition MEDIUM_PERFORMANCE_MODE :: int where "MEDIUM_PERFORMANCE_MODE = 1"
definition HIGH_PERFORMANCE_MODE :: int where "HIGH_PERFORMANCE_MODE = 2"
definition ULTRAHIGH_PERFORMANCE_MODE :: int where "ULTRAHIGH_PERFORMANCE_MODE = 3"

definition REG_CTRL_REG1_BIT_MASK_D02_DO1_DO0 :: int where
  "REG_CTRL_REG1_BIT_MASK_D02_DO1_DO0 = 0x1C"
definition REG_CTRL_REG1_BIT_POS_D02_DO1_DO0 :: nat where
  "REG_CTRL_REG1_BIT_POS_D02_DO1_DO0 = 2"
definition REG_CTRL_REG1_BIT_MASK_OM1_OM0 :: int where
  "REG_CTRL_REG1_BIT_MASK_OM1_OM0 = 0x60"
definition REG_CTRL_REG1_BIT_POS_OM1_OM0 :: nat where
  "REG_CTRL_REG1_BIT_POS_OM1_OM0 = 5"
definition REG_CTRL_REG1_BIT_MASK_FAST_ORD :: int where
  "REG_CTRL_REG1_BIT_MASK_FAST_ORD = 0x2"
definition REG_CTRL_REG1_BIT_POS_FAST_ORD :: nat where
  "REG_CTRL_REG1_BIT_POS_FAST_ORD = 1"
definition REG_CTRL_REG1_BIT_VAL_FAST_ORD :: int where
  "REG_CTRL_REG1_BIT_VAL_FAST_ORD = 2"

definition LIS3MDL_REG_INT_CFG :: u8 where "LIS3MDL_REG_INT_CFG = 0x30"
definition LIS3MDL_REG_INT_CFG_MASK_IEN :: int where "LIS3MDL_REG_INT_CFG_MASK_IEN = 0x01"

definition LIS3MDL_OUT_X_L_REG :: u8 where "LIS3MDL_OUT_X_L_REG = 0x28"
definition LIS3MDL_OUT_Y_L_REG :: u8 where "LIS3MDL_OUT_Y_L_REG = 0x2A"
definition LIS3MDL_OUT_Z_L_REG :: u8 where "LIS3MDL_OUT_Z_L_REG = 0x2C"

definition LIS3MDL_AXIS_X :: int where "LIS3MDL_AXIS_X = 0"
definition LIS3MDL_AXIS_Y :: int where "LIS3MDL_AXIS_Y = 1"
definition LIS3MDL_AXIS_Z :: int where "LIS3MDL_AXIS_Z = 2"

subsection \<open>The I2C bus (i2c.h)\<close>

text \<open>
  Modelled from the spec: \<open>i2c.h\<close> with \<open>i2c_read\<close>, \<open>i2c_write\<close> and \<open>STATUS_OK\<close> is
  included by \<open>magnetometer.c\<close> but is not among the sources. The spec gives the transport as
  \<open>read(deviceAddress, registerAddress, byteCount) -> Result<bytes, BusFailure>\<close> and
  \<open>write(deviceAddress, registerAddress, byteCount, bytes) -> Result<(), BusFailure>\<close>.
  The bus below is a register file of the one device, a script \<open>faults\<close> that says for each
  coming transfer whether it fails (an exhausted script means success), and the trace
  \<open>accesses\<close> of all transfers attempted so far. A failed transfer delivers no bytes and
  leaves the registers alone. \<open>STATUS_OK\<close> is the first enumerator (value 0), so the bare
  test \<open>if (i2c_read(...))\<close> of the driver is the test \<open>\<noteq> STATUS_OK\<close>.
\<close>

datatype status_t = STATUS_OK | STATUS_ERROR

datatype bus_access =
    I2C_READ u8 u8 nat
  | I2C_WRITE u8 u8 nat "u8 list"

record i2c_bus =
  registers :: "u8 \<Rightarrow> u8"
  faults :: "bool list"
  accesses :: "bus_access list"

fun read_regs :: "(u8 \<Rightarrow> u8) \<Rightarrow> u8 \<Rightarrow> nat \<Rightarrow> u8 list" where
  "read_regs r a 0 = []"
| "read_regs r a (Suc n) = r a # read_regs r (a + 1) n"

fun write_regs :: "(u8 \<Rightarrow> u8) \<Rightarrow> u8 \<Rightarrow> u8 list \<Rightarrow> (u8 \<Rightarrow> u8)" where
  "write_regs r a [] = r"
| "write_regs r a (x # xs) = write_regs (r(a := x)) (a + 1) xs"

definition next_fault :: "i2c_bus \<Rightarrow> bool" where
  "next_fault bus = (case faults bus of [] \<Rightarrow> False | f # _ \<Rightarrow> f)"

definition i2c_read :: "u8 \<Rightarrow> u8 \<Rightarrow> nat \<Rightarrow> i2c_bus \<Rightarrow> status_t \<times> u8 list \<times> i2c_bus" where
  "i2c_read bus_address register_address len bus =
     (let bus' = bus\<lparr>faults := tl (faults bus),
                     accesses := accesses bus @ [I2C_READ bus_address register_address len]\<rparr>
      in if next_fault bus then (STATUS_ERROR, [], bus')
         else (STATUS_OK, read_regs (registers bus) register_address len, bus'))"

definition i2c_write :: "u8 \<Rightarrow> u8 \<Rightarrow> nat \<Rightarrow> u8 list \<Rightarrow> i2c_bus \<Rightarrow> status_t \<times> i2c_bus" where
  "i2c_write bus_address register_address len data bus =
     (let bus' = bus\<lparr>faults := tl (faults bus),
                     accesses := accesses bus @ [I2C_WRITE bus_address register_address len data]\<rparr>
      in if next_fault bus then (STATUS_ERROR, bus')
         else (STATUS_OK,
               bus'\<lparr>registers := write_regs (registers bus) register_address (take len data)\<rparr>))"

section \<open>magnetometer.c\<close>

text \<open>
  An output pointer is an \<open>option\<close>: \<open>None\<close> is \<open>NULL\<close>, \<open>Some v\<close> a pointer to a variable
  that holds \<open>v\<close>. Each operation returns its status, the pointee after the call and the
  bus after the call.
\<close>

subsection \<open>LIS3MDL_getFullScaleConfig\<close>

text \<open>The range check and the store, for the value \<open>fullScaleRead\<close> taken from the register.\<close>

definition getFullScaleConfig_store :: "u8 \<Rightarrow> u8 option \<Rightarrow> status_mag_t \<times> u8 option" where
  "getFullScaleConfig_store fullScaleRead pFullScaleRange =
     (if uint fullScaleRead < RANGE_4_GAUSS \<or> uint fullScaleRead > RANGE_16_GAUSS
      then (STATUS_MAG_ERROR, pFullScaleRange)
      else (STATUS_MAG_OK, Some fullScaleRead))"

definition LIS3MDL_getFullScaleConfig ::
  "u8 option \<Rightarrow> i2c_bus \<Rightarrow> status_mag_t \<times> u8 option \<times> i2c_bus" where
  "LIS3MDL_getFullScaleConfig pFullScaleRange bus =
     (if pFullScaleRange = None then (STATUS_MAG_ERROR, pFullScaleRange, bus)
      else case i2c_read I2C_BUS_ADDR REG_CTRL_REG_2 NUM_OF_BYTES_1 bus of
        (st, i2cReadBuffer, bus') \<Rightarrow>
          if st \<noteq> STATUS_OK then (STATUS_BUS_ERROR, pFullScaleRange, bus')
          else
            let fullScaleRead = (word_of_int (GET_BIT (uint (i2cReadBuffer ! 0))
                  REG_CTRL_REG2_BIT_MASK_FS1_FS0 REG_CTRL_REG2_BIT_POS_FS1_FS0) :: u8)
            in case getFullScaleConfig_store fullScaleRead pFullScaleRange of
                 (res, p') \<Rightarrow> (res, p', bus'))"

subsection \<open>LIS3MDL_setOutputDataRate\<close>

text \<open>
  The \<open>switch\<close> on the fast rates. Its \<open>default\<close> leaves the local \<open>omValue\<close> as it was,
  and the local is declared without an initial value: that indeterminate value is the
  argument \<open>omValue\<close>.
\<close>

definition setOutputDataRate_omValue :: "u8 \<Rightarrow> u8 \<Rightarrow> u8" where
  "setOutputDataRate_omValue omValue dataRate =
     (if uint dataRate = DATARATE_155_Hz then word_of_int ULTRAHIGH_PERFORMANCE_MODE
      else if uint dataRate = DATARATE_300_Hz then word_of_int HIGH_PERFORMANCE_MODE
      else if uint dataRate = DATARATE_560_Hz then word_of_int MEDIUM_PERFORMANCE_MODE
      else if uint dataRate = DATARATE_1000_Hz then word_of_int LOW_POWER_MODE
      else omValue)"

text \<open>
  The newly encoded bits: \<open>i2cWriteBuffer\<close> before it is combined with the byte read from
  the register. \<open>None\<close> is the last \<open>else\<close>, the invalid rate.
\<close>

definition setOutputDataRate_encode :: "u8 \<Rightarrow> u8 \<Rightarrow> u8 option" where
  "setOutputDataRate_encode omValue dataRate =
     (if uint dataRate \<ge> DATARATE_0_625_Hz \<and> uint dataRate \<le> DATARATE_80_Hz then
        Some (word_of_int (SET_BIT (uint dataRate)
                REG_CTRL_REG1_BIT_MASK_D02_DO1_DO0 REG_CTRL_REG1_BIT_POS_D02_DO1_DO0))
      else if uint dataRate > DATARATE_80_Hz \<and> uint dataRate \<le> DATARATE_1000_Hz then
        let i2cWriteBuffer = (word_of_int REG_CTRL_REG1_BIT_VAL_FAST_ORD :: u8);
            omValue' = setOutputDataRate_omValue omValue dataRate
        in Some (i2cWriteBuffer OR word_of_int (SET_BIT (uint omValue')
                   REG_CTRL_REG1_BIT_MASK_OM1_OM0 REG_CTRL_REG1_BIT_POS_OM1_OM0))
      else None)"

definition LIS3MDL_setOutputDataRate ::
  "u8 \<Rightarrow> u8 \<Rightarrow> i2c_bus \<Rightarrow> status_mag_t \<times> i2c_bus" where
  "LIS3MDL_setOutputDataRate omValue dataRate bus =
     (case i2c_read I2C_BUS_ADDR REG_CTRL_REG_1 NUM_OF_BYTES_1 bus of
        (st, buf, bus') \<Rightarrow>
          if st \<noteq> STATUS_OK then (STATUS_BUS_ERROR, bus')
          else
            let currentRegValue = buf ! 0
            in case setOutputDataRate_encode omValue dataRate of
                 None \<Rightarrow> (STATUS_MAG_ERROR, bus')
               | Some i2cWriteBuffer \<Rightarrow>
                   (case i2c_write I2C_BUS_ADDR REG_CTRL_REG_1 NUM_OF_BYTES_1
                           [i2cWriteBuffer OR currentRegValue] bus' of
                      (st', bus'') \<Rightarrow>
                        (if st' = STATUS_OK then STATUS_MAG_OK else STATUS_BUS_ERROR, bus'')))"

subsection \<open>LIS3MDL_getOutputDataRate\<close>

text \<open>The decoding of the register byte, after the read has succeeded.\<close>

definition getOutputDataRate_decode :: "u8 \<Rightarrow> u8 option \<Rightarrow> status_mag_t \<times> u8 option" where
  "getOutputDataRate_decode reg dataRate =
     (let fastOdrValue = (word_of_int (GET_BIT (uint reg)
            REG_CTRL_REG1_BIT_MASK_FAST_ORD REG_CTRL_REG1_BIT_POS_FAST_ORD) :: u8)
      in if fastOdrValue = 0 then
           (STATUS_MAG_OK, Some (word_of_int (GET_BIT (uint reg)
              REG_CTRL_REG1_BIT_MASK_D02_DO1_DO0 REG_CTRL_REG1_BIT_POS_D02_DO1_DO0)))
         else if fastOdrValue \<noteq> 0 then
           (let omValue = (word_of_int (GET_BIT (uint reg)
                  REG_CTRL_REG1_BIT_MASK_OM1_OM0 REG_CTRL_REG1_BIT_POS_OM1_OM0) :: u8)
            in if uint omValue = LOW_POWER_MODE then
                 (STATUS_MAG_OK, Some (word_of_int DATARATE_1000_Hz))
               else if uint omValue = MEDIUM_PERFORMANCE_MODE then
                 (STATUS_MAG_OK, Some (word_of_int DATARATE_560_Hz))
               else if uint omValue = HIGH_PERFORMANCE_MODE then
                 (STATUS_MAG_OK, Some (word_of_int DATARATE_300_Hz))
               else if uint omValue = ULTRAHIGH_PERFORMANCE_MODE then
                 (STATUS_MAG_OK, Some (word_of_int DATARATE_155_Hz))
               else (STATUS_MAG_ERROR, dataRate))
         else (STATUS_MAG_OK, dataRate))"

definition LIS3MDL_getOutputDataRate ::
  "u8 option \<Rightarrow> i2c_bus \<Rightarrow> status_mag_t \<times> u8 option \<times> i2c_bus" where
  "LIS3MDL_getOutputDataRate dataRate bus =
     (if dataRate = None then (STATUS_MAG_ERROR, dataRate, bus)
      else case i2c_read I2C_BUS_ADDR REG_CTRL_REG_1 NUM_OF_BYTES_1 bus of
        (st, i2cReadBuffer, bus') \<Rightarrow>
          if st \<noteq> STATUS_OK then (STATUS_BUS_ERROR, dataRate, bus')
          else case getOutputDataRate_decode (i2cReadBuffer ! 0) dataRate of
                 (res, p') \<Rightarrow> (res, p', bus'))"

subsection \<open>LIS3MDL_enableDisableIntPin\<close>

text \<open>The byte written back, for the flag and the byte read from the register.\<close>

definition enableDisableIntPin_buffer :: "u8 \<Rightarrow> u8 \<Rightarrow> u8" where
  "enableDisableIntPin_buffer enableDisable i2cReadBuffer =
     (if uint enableDisable = 1
      then word_of_int (uint i2cReadBuffer OR LIS3MDL_REG_INT_CFG_MASK_IEN)
      else word_of_int (uint i2cReadBuffer AND NOT LIS3MDL_REG_INT_CFG_MASK_IEN))"

definition LIS3MDL_enableDisableIntPin :: "u8 \<Rightarrow> i2c_bus \<Rightarrow> status_mag_t \<times> i2c_bus" where
  "LIS3MDL_enableDisableIntPin enableDisable bus =
     (if uint enableDisable > 1 \<or> uint enableDisable < 0 then (STATUS_MAG_ERROR, bus)
      else case i2c_read I2C_BUS_ADDR LIS3MDL_REG_INT_CFG NUM_OF_BYTES_1 bus of
        (st, buf, bus') \<Rightarrow>
          if st \<noteq> STATUS_OK then (STATUS_BUS_ERROR, bus')
          else
            let i2cWriteBuffer = enableDisableIntPin_buffer enableDisable (buf ! 0)
            in case i2c_write I2C_BUS_ADDR LIS3MDL_REG_INT_CFG NUM_OF_BYTES_1
                      [i2cWriteBuffer] bus' of
                 (st', bus'') \<Rightarrow>
                   if st' \<noteq> STATUS_OK then (STATUS_BUS_ERROR, bus'')
                   else (STATUS_MAG_OK, bus''))"

subsection \<open>LIS3MDL_readAxisData\<close>

text \<open>The \<open>switch\<close> on the axis selector; \<open>None\<close> is its \<open>default\<close>.\<close>

definition readAxisData_axisRegVal :: "u8 \<Rightarrow> u8 option" where
  "readAxisData_axisRegVal axisType =
     (if uint axisType = LIS3MDL_AXIS_X then Some LIS3MDL_OUT_X_L_REG
      else if uint axisType = LIS3MDL_AXIS_Y then Some LIS3MDL_OUT_Y_L_REG
      else if uint axisType = LIS3MDL_AXIS_Z then Some LIS3MDL_OUT_Z_L_REG
      else None)"

definition LIS3MDL_readAxisData ::
  "u8 \<Rightarrow> u16 option \<Rightarrow> i2c_bus \<Rightarrow> status_mag_t \<times> u16 option \<times> i2c_bus" where
  "LIS3MDL_readAxisData axisType axisData bus =
     (if axisData = None then (STATUS_MAG_ERROR, axisData, bus)
      else case readAxisData_axisRegVal axisType of
        None \<Rightarrow> (STATUS_MAG_ERROR, axisData, bus)
      | Some axisRegVal \<Rightarrow>
          (case i2c_read I2C_BUS_ADDR axisRegVal NUM_OF_BYTES_2 bus of
             (st, i2cReadBuffer, bus') \<Rightarrow>
               if st \<noteq> STATUS_OK then (STATUS_BUS_ERROR, axisData, bus')
               else (STATUS_MAG_OK,
                     Some (word_of_int (push_bit 8 (uint (i2cReadBuffer ! 1))
                                          OR uint (i2cReadBuffer ! 0))),
                     bus')))"

section \<open>Vocabulary of the properties\<close>

text \<open>
  \<open>bus_of contents script\<close> is a bus with the given register contents (all other
  registers 0), the given fault script and an empty trace. \<open>fault_at k bus\<close> says that
  the transfer number \<open>k\<close> from now (counting from 0) fails. \<open>transferred as bus\<close> is
  the bus after the transfers \<open>as\<close> were attempted, its registers untouched.
\<close>

definition bus_of :: "(u8 \<times> u8) list \<Rightarrow> bool list \<Rightarrow> i2c_bus" where
  "bus_of contents script =
     \<lparr>registers = (\<lambda>a. case map_of contents a of None \<Rightarrow> 0 | Some v \<Rightarrow> v),
      faults = script, accesses = []\<rparr>"

definition fault_at :: "nat \<Rightarrow> i2c_bus \<Rightarrow> bool" where
  "fault_at k bus = (k < length (faults bus) \<and> faults bus ! k)"

definition transferred :: "bus_access list \<Rightarrow> i2c_bus \<Rightarrow> i2c_bus" where
  "transferred as bus =
     bus\<lparr>faults := drop (length as) (faults bus), accesses := accesses bus @ as\<rparr>"

section \<open>The bus and the operations, transfer by transfer\<close>

lemmas magnetometer_h =
  REG_CTRL_REG_1_def REG_CTRL_REG_2_def I2C_BUS_ADDR_def NUM_OF_BYTES_2_def NUM_OF_BYTES_1_def
  REG_CTRL_REG2_BIT_MASK_FS1_FS0_def REG_CTRL_REG2_BIT_POS_FS1_FS0_def
  RANGE_4_GAUSS_def RANGE_8_GAUSS_def RANGE_12_GAUSS_def RANGE_16_GAUSS_def
  DATARATE_0_625_Hz_def DATARATE_1_25_Hz_def DATARATE_2_5_Hz_def DATARATE_5_Hz_def
  DATARATE_10_Hz_def DATARATE_20_Hz_def DATARATE_40_Hz_def DATARATE_80_Hz_def
  DATARATE_155_Hz_def DATARATE_300_Hz_def DATARATE_560_Hz_def DATARATE_1000_Hz_def
  LOW_POWER_MODE_def MEDIUM_PERFORMANCE_MODE_def HIGH_PERFORMANCE_MODE_def
  ULTRAHIGH_PERFORMANCE_MODE_def
  REG_CTRL_REG1_BIT_MASK_D02_DO1_DO0_def REG_CTRL_REG1_BIT_POS_D02_DO1_DO0_def
  REG_CTRL_REG1_BIT_MASK_OM1_OM0_def REG_CTRL_REG1_BIT_POS_OM1_OM0_def
  REG_CTRL_REG1_BIT_MASK_FAST_ORD_def REG_CTRL_REG1_BIT_POS_FAST_ORD_def
  REG_CTRL_REG1_BIT_VAL_FAST_ORD_def
  LIS3MDL_REG_INT_CFG_def LIS3MDL_REG_INT_CFG_MASK_IEN_def
  LIS3MDL_OUT_X_L_REG_def LIS3MDL_OUT_Y_L_REG_def LIS3MDL_OUT_Z_L_REG_def
  LIS3MDL_AXIS_X_def LIS3MDL_AXIS_Y_def LIS3MDL_AXIS_Z_def

lemma next_fault_iff: "next_fault bus = fault_at 0 bus"
  by (cases "faults bus") (simp_all add: next_fault_def fault_at_def)

lemma fault_at_transferred:
  "fault_at k (transferred as bus) = fault_at (length as + k) bus"
  by (auto simp add: fault_at_def transferred_def)

lemma transferred_sel:
  "registers (transferred as bus) = registers bus"
  "accesses (transferred as bus) = accesses bus @ as"
  "faults (transferred as bus) = drop (length as) (faults bus)"
  by (simp_all add: transferred_def)

lemma transferred_append: "transferred bs (transferred as bus) = transferred (as @ bs) bus"
  by (simp add: transferred_def add.commute)

lemma read_regs_1: "read_regs r a NUM_OF_BYTES_1 = [r a]"
  by (simp add: NUM_OF_BYTES_1_def)

lemma read_regs_2: "read_regs r a NUM_OF_BYTES_2 = [r a, r (a + 1)]"
  by (simp add: NUM_OF_BYTES_2_def numeral_2_eq_2)

lemma i2c_read_result:
  "i2c_read dev reg n bus =
     (if fault_at 0 bus then (STATUS_ERROR, [], transferred [I2C_READ dev reg n] bus)
      else (STATUS_OK, read_regs (registers bus) reg n, transferred [I2C_READ dev reg n] bus))"
  by (simp add: i2c_read_def next_fault_iff transferred_def Let_def drop_Suc)

lemma i2c_write_result:
  "i2c_write dev reg NUM_OF_BYTES_1 [v] bus =
     (if fault_at 0 bus then (STATUS_ERROR, transferred [I2C_WRITE dev reg NUM_OF_BYTES_1 [v]] bus)
      else (STATUS_OK, (transferred [I2C_WRITE dev reg NUM_OF_BYTES_1 [v]] bus)
                          \<lparr>registers := (registers bus)(reg := v)\<rparr>))"
  by (simp add: i2c_write_def next_fault_iff transferred_def Let_def drop_Suc NUM_OF_BYTES_1_def)

lemma fs_field:
  "(word_of_int (GET_BIT (uint (b::u8)) REG_CTRL_REG2_BIT_MASK_FS1_FS0
      REG_CTRL_REG2_BIT_POS_FS1_FS0) :: u8) = drop_bit 5 (b AND 0x60)"
  unfolding GET_BIT_def magnetometer_h by (rule bit_word_eqI) (auto simp add: bit_simps)

lemma getFullScaleConfig_result:
  "LIS3MDL_getFullScaleConfig p bus =
     (if p = None then (STATUS_MAG_ERROR, p, bus)
      else if fault_at 0 bus
        then (STATUS_BUS_ERROR, p, transferred [I2C_READ I2C_BUS_ADDR REG_CTRL_REG_2 NUM_OF_BYTES_1] bus)
      else case getFullScaleConfig_store (drop_bit 5 (registers bus REG_CTRL_REG_2 AND 0x60)) p of
             (res, p') \<Rightarrow> (res, p', transferred [I2C_READ I2C_BUS_ADDR REG_CTRL_REG_2 NUM_OF_BYTES_1] bus))"
  by (simp add: LIS3MDL_getFullScaleConfig_def i2c_read_result read_regs_1 fs_field)

lemma setOutputDataRate_result:
  "LIS3MDL_setOutputDataRate om rate bus =
     (let rd = I2C_READ I2C_BUS_ADDR REG_CTRL_REG_1 NUM_OF_BYTES_1;
          cur = registers bus REG_CTRL_REG_1
      in if fault_at 0 bus then (STATUS_BUS_ERROR, transferred [rd] bus)
         else case setOutputDataRate_encode om rate of
            None \<Rightarrow> (STATUS_MAG_ERROR, transferred [rd] bus)
          | Some enc \<Rightarrow>
              (let wr = I2C_WRITE I2C_BUS_ADDR REG_CTRL_REG_1 NUM_OF_BYTES_1 [enc OR cur]
               in if fault_at 1 bus then (STATUS_BUS_ERROR, transferred [rd, wr] bus)
                  else (STATUS_MAG_OK, (transferred [rd, wr] bus)
                          \<lparr>registers := (registers bus)(REG_CTRL_REG_1 := enc OR cur)\<rparr>)))"
  by (simp add: LIS3MDL_setOutputDataRate_def i2c_read_result i2c_write_result read_regs_1
        Let_def fault_at_transferred transferred_append transferred_sel split: option.split)

lemma getOutputDataRate_result:
  "LIS3MDL_getOutputDataRate p bus =
     (let rd = I2C_READ I2C_BUS_ADDR REG_CTRL_REG_1 NUM_OF_BYTES_1
      in if p = None then (STATUS_MAG_ERROR, p, bus)
         else if fault_at 0 bus then (STATUS_BUS_ERROR, p, transferred [rd] bus)
         else case getOutputDataRate_decode (registers bus REG_CTRL_REG_1) p of
                (res, p') \<Rightarrow> (res, p', transferred [rd] bus))"
  by (simp add: LIS3MDL_getOutputDataRate_def i2c_read_result read_regs_1 Let_def)

lemma enableDisableIntPin_result:
  "LIS3MDL_enableDisableIntPin e bus =
     (let rd = I2C_READ I2C_BUS_ADDR LIS3MDL_REG_INT_CFG NUM_OF_BYTES_1;
          v = enableDisableIntPin_buffer e (registers bus LIS3MDL_REG_INT_CFG);
          wr = I2C_WRITE I2C_BUS_ADDR LIS3MDL_REG_INT_CFG NUM_OF_BYTES_1 [v]
      in if 1 < e then (STATUS_MAG_ERROR, bus)
         else if fault_at 0 bus then (STATUS_BUS_ERROR, transferred [rd] bus)
         else if fault_at 1 bus then (STATUS_BUS_ERROR, transferred [rd, wr] bus)
         else (STATUS_MAG_OK, (transferred [rd, wr] bus)
                 \<lparr>registers := (registers bus)(LIS3MDL_REG_INT_CFG := v)\<rparr>))"
  by (simp add: LIS3MDL_enableDisableIntPin_def i2c_read_result i2c_write_result read_regs_1
        Let_def fault_at_transferred transferred_append transferred_sel word_less_def)

lemma readAxisData_result:
  "LIS3MDL_readAxisData axis p bus =
     (if p = None then (STATUS_MAG_ERROR, p, bus)
      else case readAxisData_axisRegVal axis of
        None \<Rightarrow> (STATUS_MAG_ERROR, p, bus)
      | Some reg \<Rightarrow>
          if fault_at 0 bus
          then (STATUS_BUS_ERROR, p, transferred [I2C_READ I2C_BUS_ADDR reg NUM_OF_BYTES_2] bus)
          else (STATUS_MAG_OK,
                Some (word_of_int (push_bit 8 (uint (registers bus (reg + 1)))
                                     OR uint (registers bus reg))),
                transferred [I2C_READ I2C_BUS_ADDR reg NUM_OF_BYTES_2] bus))"
  by (simp add: LIS3MDL_readAxisData_def i2c_read_result read_regs_2 split: option.split)

section \<open>The register codec on bytes\<close>

lemma rate_cases:
  assumes "(r::u8) \<le> 11"
  shows "r \<in> {0, 1, 2, 3, 4, 5, 6, 7, 8, 9, 10, 11}"
proof -
  from assms have "unat r \<le> 11" by (simp add: word_le_nat_alt)
  then have "unat r \<in> {0, 1, 2, 3, 4, 5, 6, 7, 8, 9, 10, 11}" by (simp; arith)
  then have "(of_nat (unat r) :: u8) \<in> of_nat ` {0, 1, 2, 3, 4, 5, 6, 7, 8, 9, 10, 11}"
    by (rule imageI)
  then show ?thesis by simp
qed

lemma index_cases: "n < 8 \<Longrightarrow> n \<in> {0, 1, 2, 3, 4, 5, 6, 7::nat}"
  by (simp; arith)

lemma u8_eqI:
  assumes "\<And>n. n \<in> {0, 1, 2, 3, 4, 5, 6, 7} \<Longrightarrow> bit a n = bit b n"
  shows "a = (b::u8)"
proof (rule bit_word_eqI)
  fix n assume "n < LENGTH(8)"
  then have "n \<in> {0, 1, 2, 3, 4, 5, 6, 7}" using index_cases by simp
  then show "bit a n = bit b n" by (rule assms)
qed

lemma encode_values:
  "setOutputDataRate_encode om 0 = Some 0x00"
  "setOutputDataRate_encode om 1 = Some 0x04"
  "setOutputDataRate_encode om 2 = Some 0x08"
  "setOutputDataRate_encode om 3 = Some 0x0C"
  "setOutputDataRate_encode om 4 = Some 0x10"
  "setOutputDataRate_encode om 5 = Some 0x14"
  "setOutputDataRate_encode om 6 = Some 0x18"
  "setOutputDataRate_encode om 7 = Some 0x1C"
  "setOutputDataRate_encode om 8 = Some 0x62"
  "setOutputDataRate_encode om 9 = Some 0x42"
  "setOutputDataRate_encode om 10 = Some 0x22"
  "setOutputDataRate_encode om 11 = Some 0x02"
  by (simp_all add: setOutputDataRate_encode_def setOutputDataRate_omValue_def SET_BIT_def
        magnetometer_h)

lemma encode_invalid: "11 < r \<Longrightarrow> setOutputDataRate_encode om r = None"
  by (simp add: setOutputDataRate_encode_def magnetometer_h word_less_def)

lemma fast_field:
  "(word_of_int (GET_BIT (uint (reg::u8)) REG_CTRL_REG1_BIT_MASK_FAST_ORD
      REG_CTRL_REG1_BIT_POS_FAST_ORD) :: u8) = drop_bit 1 reg AND 1"
  unfolding GET_BIT_def magnetometer_h by (rule u8_eqI) (auto simp add: bit_simps)

lemma odr_field:
  "(word_of_int (GET_BIT (uint (reg::u8)) REG_CTRL_REG1_BIT_MASK_D02_DO1_DO0
      REG_CTRL_REG1_BIT_POS_D02_DO1_DO0) :: u8) = drop_bit 2 reg AND 7"
  unfolding GET_BIT_def magnetometer_h by (rule u8_eqI) (auto simp add: bit_simps)

lemma om_field:
  "(word_of_int (GET_BIT (uint (reg::u8)) REG_CTRL_REG1_BIT_MASK_OM1_OM0
      REG_CTRL_REG1_BIT_POS_OM1_OM0) :: u8) = drop_bit 5 reg AND 3"
  unfolding GET_BIT_def magnetometer_h by (rule u8_eqI) (auto simp add: bit_simps)

lemma uint_eq_small:
  "uint w = 0 \<longleftrightarrow> w = 0" "uint w = 1 \<longleftrightarrow> w = 1" "uint w = 2 \<longleftrightarrow> w = 2"
  "uint w = 3 \<longleftrightarrow> w = 3" for w :: u8
  by (simp_all add: word_uint_eq_iff)

lemma decode_word:
  "getOutputDataRate_decode reg p =
     (if drop_bit 1 reg AND 1 = 0 then (STATUS_MAG_OK, Some (drop_bit 2 reg AND 7))
      else if drop_bit 5 reg AND 3 = 0 then (STATUS_MAG_OK, Some 11)
      else if drop_bit 5 reg AND 3 = 1 then (STATUS_MAG_OK, Some 10)
      else if drop_bit 5 reg AND 3 = 2 then (STATUS_MAG_OK, Some 9)
      else if drop_bit 5 reg AND 3 = 3 then (STATUS_MAG_OK, Some 8)
      else (STATUS_MAG_ERROR, p))"
  unfolding getOutputDataRate_decode_def fast_field odr_field om_field
  by (simp add: magnetometer_h uint_eq_small Let_def)

lemma decode_values:
  "getOutputDataRate_decode 0x00 p = (STATUS_MAG_OK, Some 0)"
  "getOutputDataRate_decode 0x04 p = (STATUS_MAG_OK, Some 1)"
  "getOutputDataRate_decode 0x08 p = (STATUS_MAG_OK, Some 2)"
  "getOutputDataRate_decode 0x0C p = (STATUS_MAG_OK, Some 3)"
  "getOutputDataRate_decode 0x10 p = (STATUS_MAG_OK, Some 4)"
  "getOutputDataRate_decode 0x14 p = (STATUS_MAG_OK, Some 5)"
  "getOutputDataRate_decode 0x18 p = (STATUS_MAG_OK, Some 6)"
  "getOutputDataRate_decode 0x1C p = (STATUS_MAG_OK, Some 7)"
  "getOutputDataRate_decode 0x62 p = (STATUS_MAG_OK, Some 8)"
  "getOutputDataRate_decode 0x42 p = (STATUS_MAG_OK, Some 9)"
  "getOutputDataRate_decode 0x22 p = (STATUS_MAG_OK, Some 10)"
  "getOutputDataRate_decode 0x02 p = (STATUS_MAG_OK, Some 11)"
  by (simp_all add: decode_word)

lemma fields_clear:
  assumes "cur AND 0x7E = (0::u8)"
  shows "drop_bit 1 cur AND 1 = 0" "drop_bit 2 cur AND 7 = 0" "drop_bit 5 cur AND 3 = 0"
proof -
  have "cur AND 0x2 = (cur AND 0x7E) AND 0x2" "cur AND 0x1C = (cur AND 0x7E) AND 0x1C"
    "cur AND 0x60 = (cur AND 0x7E) AND 0x60"
    by (simp_all add: and.assoc)
  with assms have "cur AND 0x2 = 0" "cur AND 0x1C = 0" "cur AND 0x60 = 0" by simp_all
  then have "drop_bit 1 (cur AND 0x2) = 0" "drop_bit 2 (cur AND 0x1C) = 0"
    "drop_bit 5 (cur AND 0x60) = 0"
    by (simp_all only: drop_bit_of_0)
  then show "drop_bit 1 cur AND 1 = 0" "drop_bit 2 cur AND 7 = 0" "drop_bit 5 cur AND 3 = 0"
    by simp_all
qed

lemma decode_ignores_clear_fields:
  assumes "cur AND 0x7E = 0"
  shows "getOutputDataRate_decode (enc OR cur) p = getOutputDataRate_decode enc p"
proof -
  note c = fields_clear [OF assms]
  have "drop_bit 1 (enc OR cur) AND 1 = (drop_bit 1 enc AND 1) OR (drop_bit 1 cur AND 1)"
    "drop_bit 2 (enc OR cur) AND 7 = (drop_bit 2 enc AND 7) OR (drop_bit 2 cur AND 7)"
    "drop_bit 5 (enc OR cur) AND 3 = (drop_bit 5 enc AND 3) OR (drop_bit 5 cur AND 3)"
    by (simp_all only: drop_bit_or bit.conj_disj_distrib2)
  then have "drop_bit 1 (enc OR cur) AND 1 = drop_bit 1 enc AND 1"
    "drop_bit 2 (enc OR cur) AND 7 = drop_bit 2 enc AND 7"
    "drop_bit 5 (enc OR cur) AND 3 = drop_bit 5 enc AND 3"
    by (simp_all only: c or.right_neutral)
  then show ?thesis by (simp only: decode_word)
qed

section \<open>Facts shared by the claims\<close>

lemma bus_of_sel:
  "registers (bus_of contents script) a = (case map_of contents a of None \<Rightarrow> 0 | Some v \<Rightarrow> v)"
  "faults (bus_of contents script) = script"
  "accesses (bus_of contents script) = []"
  by (simp_all add: bus_of_def)

lemma fault_at_registers_update:
  "fault_at k (bus\<lparr>registers := r\<rparr>) = fault_at k bus"
  by (simp add: fault_at_def)

lemma encode_defined:
  assumes "r \<le> 11"
  shows "\<exists>enc. setOutputDataRate_encode om r = Some enc
      \<and> (\<forall>p. getOutputDataRate_decode enc p = (STATUS_MAG_OK, Some r))
      \<and> enc AND NOT 0x7E = 0"
proof -
  from assms have "r \<in> {0, 1, 2, 3, 4, 5, 6, 7, 8, 9, 10, 11}" by (rule rate_cases)
  then show ?thesis by (auto simp add: encode_values decode_values)
qed

lemma setOutputDataRate_ok:
  assumes "setOutputDataRate_encode om rate = Some enc" "\<not> fault_at 0 bus" "\<not> fault_at 1 bus"
  shows "LIS3MDL_setOutputDataRate om rate bus =
    (STATUS_MAG_OK,
     (transferred [I2C_READ I2C_BUS_ADDR REG_CTRL_REG_1 NUM_OF_BYTES_1,
                   I2C_WRITE I2C_BUS_ADDR REG_CTRL_REG_1 NUM_OF_BYTES_1
                     [enc OR registers bus REG_CTRL_REG_1]] bus)
       \<lparr>registers := (registers bus)(REG_CTRL_REG_1 := enc OR registers bus REG_CTRL_REG_1)\<rparr>)"
  using assms by (simp add: setOutputDataRate_result Let_def)

lemma outside_fields:
  assumes "enc AND NOT 0x7E = (0::u8)" "n \<notin> {1, 2, 3, 4, 5, 6}"
  shows "\<not> bit enc n"
proof
  assume b: "bit enc n"
  then have "n < 8" using bit_imp_le_length [of enc n] by simp
  with assms(2) have n: "n = 0 \<or> n = 7" using index_cases [of n] by auto
  have "bit (enc AND NOT 0x7E) n = bit (0::u8) n" using assms(1) by simp
  with b n show False by (auto simp add: bit_simps)
qed

lemma le3_cases:
  assumes "(w::u8) \<le> 3"
  shows "w \<in> {0, 1, 2, 3}"
proof -
  from assms have "w \<le> 11" by (simp add: word_le_nat_alt)
  then have "w \<in> {0, 1, 2, 3, 4, 5, 6, 7, 8, 9, 10, 11}" by (rule rate_cases)
  with assms show ?thesis by auto
qed

lemma axisRegVal_word:
  "readAxisData_axisRegVal axis =
     (if axis = 0 then Some LIS3MDL_OUT_X_L_REG
      else if axis = 1 then Some LIS3MDL_OUT_Y_L_REG
      else if axis = 2 then Some LIS3MDL_OUT_Z_L_REG
      else None)"
  by (simp add: readAxisData_axisRegVal_def magnetometer_h uint_eq_small)

lemma axisRegVal_invalid: "2 < axis \<Longrightarrow> readAxisData_axisRegVal axis = None"
  by (auto simp add: axisRegVal_word)

lemma sample_uint:
  "uint (word_of_int (push_bit 8 (uint (hi::u8)) OR uint (lo::u8)) :: u16)
     = 256 * uint hi + uint lo"
proof -
  define s where "s = 256 * uint hi + uint lo"
  have "push_bit 8 (uint hi) + uint lo = push_bit 8 (uint hi) OR uint lo"
    by (rule disjunctive_add_eq_or)
      (auto simp add: bit_eq_iff bit_simps dest: bit_imp_le_length)
  then have eq: "push_bit 8 (uint hi) OR uint lo = s"
    by (simp add: s_def push_bit_eq_mult)
  have "0 \<le> s" by (simp add: s_def)
  moreover have "s < 2 ^ 16"
    using uint_lt2p [of hi] uint_lt2p [of lo] by (simp add: s_def)
  ultimately have "take_bit 16 s = s"
    by (rule take_bit_int_eq_self)
  then have "uint (word_of_int s :: u16) = s"
    by (simp add: uint_word_of_int_eq)
  then show ?thesis unfolding eq by (simp only: s_def)
qed

lemma sample_1234: "(word_of_int (push_bit 8 (uint (0x12::u8)) OR uint (0x34::u8)) :: u16) = 0x1234"
  by simp

lemma sample_FFFF: "(word_of_int (push_bit 8 (uint (0xFF::u8)) OR uint (0xFF::u8)) :: u16) = 0xFFFF"
  by simp

lemma uint_FFFF: "uint (0xFFFF :: u16) = 65535"
  by simp

lemma sint_FFFF: "sint (0xFFFF :: u16) = - 1"
  by simp

lemma intPin_buffer_word:
  "enableDisableIntPin_buffer e b = (if e = 1 then b OR 1 else b AND NOT 1)"
proof -
  have "(word_of_int (uint b OR 1) :: u8) = b OR 1"
    by (rule bit_word_eqI) (auto simp add: bit_simps)
  moreover have "(word_of_int (uint b AND NOT 1) :: u8) = b AND NOT 1"
    by (rule bit_word_eqI) (auto simp add: bit_simps)
  ultimately show ?thesis
    by (simp add: enableDisableIntPin_buffer_def LIS3MDL_REG_INT_CFG_MASK_IEN_def uint_eq_small)
qed

lemma intPin_buffer_bits:
  "bit (enableDisableIntPin_buffer e b) n = (if n = 0 then e = 1 else bit b n)"
  by (auto simp add: intPin_buffer_word bit_simps dest: bit_imp_le_length)

lemma enableDisableIntPin_ok:
  assumes "e \<le> 1" "\<not> fault_at 0 bus" "\<not> fault_at 1 bus"
  shows "LIS3MDL_enableDisableIntPin e bus =
    (STATUS_MAG_OK,
     (transferred [I2C_READ I2C_BUS_ADDR LIS3MDL_REG_INT_CFG NUM_OF_BYTES_1,
                   I2C_WRITE I2C_BUS_ADDR LIS3MDL_REG_INT_CFG NUM_OF_BYTES_1
                     [enableDisableIntPin_buffer e (registers bus LIS3MDL_REG_INT_CFG)]] bus)
       \<lparr>registers := (registers bus)(LIS3MDL_REG_INT_CFG :=
            enableDisableIntPin_buffer e (registers bus LIS3MDL_REG_INT_CFG))\<rparr>)"
  using assms by (simp add: enableDisableIntPin_result Let_def)

lemma store_word:
  "getFullScaleConfig_store v p =
     (if 3 < v then (STATUS_MAG_ERROR, p) else (STATUS_MAG_OK, Some v))"
  by (simp add: getFullScaleConfig_store_def magnetometer_h word_less_def)

lemma fs_code_at_bits_6_5:
  assumes "c \<le> 3" "other AND 0x60 = (0::u8)"
  shows "drop_bit 5 ((push_bit 5 c OR other) AND 0x60) = c"
proof -
  have "(push_bit 5 c OR other) AND 0x60 = push_bit 5 c AND 0x60"
    by (simp only: bit.conj_disj_distrib2 assms(2) or.right_neutral)
  moreover from assms(1) have "c \<in> {0, 1, 2, 3}" by (rule le3_cases)
  then have "drop_bit 5 (push_bit 5 c AND 0x60) = c" by auto
  ultimately show ?thesis by (simp only:)
qed

section \<open>The claims\<close>

text \<open>
  C1. For each of the twelve defined rate codes 0..11, the bits that
  \<open>LIS3MDL_setOutputDataRate\<close> encodes decode, by the algorithm of
  \<open>LIS3MDL_getOutputDataRate\<close>, to the same rate code. The same holds through the bus:
  when the rate, fast-flag and mode fields of control register 1 (bits 6:1) are clear
  beforehand and the three transfers succeed, setting a rate and then getting it returns
  \<open>STATUS_MAG_OK\<close> twice and stores the rate that was set.
\<close>

theorem outputDataRate_roundtrip:
  assumes "rate \<le> 11"
  shows "(\<exists>enc. setOutputDataRate_encode om rate = Some enc
            \<and> getOutputDataRate_decode enc p = (STATUS_MAG_OK, Some rate))
       \<and> (registers bus REG_CTRL_REG_1 AND 0x7E = 0
            \<and> \<not> fault_at 0 bus \<and> \<not> fault_at 1 bus \<and> \<not> fault_at 2 bus \<longrightarrow>
          (\<exists>bus' bus''. LIS3MDL_setOutputDataRate om rate bus = (STATUS_MAG_OK, bus')
              \<and> LIS3MDL_getOutputDataRate (Some d) bus' = (STATUS_MAG_OK, Some rate, bus'')))"
proof -
  obtain enc where e: "setOutputDataRate_encode om rate = Some enc"
    and d: "\<And>q. getOutputDataRate_decode enc q = (STATUS_MAG_OK, Some rate)"
    using encode_defined [OF assms, of om] by blast
  have first: "\<exists>enc. setOutputDataRate_encode om rate = Some enc
      \<and> getOutputDataRate_decode enc p = (STATUS_MAG_OK, Some rate)"
    using e d by blast
  have second: "\<exists>bus' bus''. LIS3MDL_setOutputDataRate om rate bus = (STATUS_MAG_OK, bus')
      \<and> LIS3MDL_getOutputDataRate (Some d) bus' = (STATUS_MAG_OK, Some rate, bus'')"
    if clear: "registers bus REG_CTRL_REG_1 AND 0x7E = 0"
      and ok: "\<not> fault_at 0 bus" "\<not> fault_at 1 bus" "\<not> fault_at 2 bus"
  proof -
    have "getOutputDataRate_decode (enc OR registers bus REG_CTRL_REG_1) (Some d)
        = (STATUS_MAG_OK, Some rate)"
      using decode_ignores_clear_fields [OF clear] d by simp
    then show ?thesis
      using ok
      by (simp add: setOutputDataRate_ok [OF e ok(1,2)] getOutputDataRate_result
            fault_at_registers_update fault_at_transferred transferred_sel Let_def
            numeral_2_eq_2)
  qed
  from first second show ?thesis by blast
qed

theorem outputDataRate_roundtrip_witness:
  "(9::u8) \<le> 11
   \<and> (\<exists>enc. setOutputDataRate_encode 0 9 = Some enc
         \<and> getOutputDataRate_decode enc None = (STATUS_MAG_OK, Some 9))
   \<and> registers (bus_of [(0x20, 0x81)] []) REG_CTRL_REG_1 AND 0x7E = 0
   \<and> \<not> fault_at 0 (bus_of [(0x20, 0x81)] [])
   \<and> \<not> fault_at 1 (bus_of [(0x20, 0x81)] [])
   \<and> \<not> fault_at 2 (bus_of [(0x20, 0x81)] [])
   \<and> (\<exists>bus' bus''.
         LIS3MDL_setOutputDataRate 0 9 (bus_of [(0x20, 0x81)] []) = (STATUS_MAG_OK, bus')
         \<and> LIS3MDL_getOutputDataRate (Some 0) bus' = (STATUS_MAG_OK, Some 9, bus''))"
proof -
  have r: "(9::u8) \<le> 11" by simp
  have b: "registers (bus_of [(0x20, 0x81)] []) REG_CTRL_REG_1 AND 0x7E = 0
      \<and> \<not> fault_at 0 (bus_of [(0x20, 0x81)] [])
      \<and> \<not> fault_at 1 (bus_of [(0x20, 0x81)] [])
      \<and> \<not> fault_at 2 (bus_of [(0x20, 0x81)] [])"
    by (simp add: bus_of_sel fault_at_def REG_CTRL_REG_1_def)
  from outputDataRate_roundtrip [OF r, of 0 None "bus_of [(0x20, 0x81)] []" 0] r b
  show ?thesis by blast
qed

text \<open>
  C2. For every byte in control register 1 and every rate code 0..11, once the read has
  succeeded the byte sent by the write of \<open>LIS3MDL_setOutputDataRate\<close> agrees with the
  byte read on every bit outside bits 1 to 6 (fast flag, rate field, mode field); when the
  write succeeds that byte is the new register content.
\<close>

theorem setOutputDataRate_keeps_unrelated_bits:
  assumes "rate \<le> 11" "\<not> fault_at 0 bus"
  shows "\<exists>st bus' w. LIS3MDL_setOutputDataRate om rate bus = (st, bus')
       \<and> accesses bus' = accesses bus @
            [I2C_READ I2C_BUS_ADDR REG_CTRL_REG_1 NUM_OF_BYTES_1,
             I2C_WRITE I2C_BUS_ADDR REG_CTRL_REG_1 NUM_OF_BYTES_1 [w]]
       \<and> (\<forall>n. n \<notin> {1, 2, 3, 4, 5, 6} \<longrightarrow> bit w n = bit (registers bus REG_CTRL_REG_1) n)
       \<and> (\<not> fault_at 1 bus \<longrightarrow> st = STATUS_MAG_OK \<and> registers bus' REG_CTRL_REG_1 = w)"
proof -
  obtain enc where e: "setOutputDataRate_encode om rate = Some enc"
    and z: "enc AND NOT 0x7E = 0"
    using encode_defined [OF assms(1), of om] by blast
  let ?w = "enc OR registers bus REG_CTRL_REG_1"
  have frame: "\<forall>n. n \<notin> {1, 2, 3, 4, 5, 6} \<longrightarrow> bit ?w n = bit (registers bus REG_CTRL_REG_1) n"
    using outside_fields [OF z] by (simp add: bit_or_iff)
  show ?thesis
  proof (cases "fault_at 1 bus")
    case True
    then show ?thesis using assms(2) e frame
      by (simp add: setOutputDataRate_result Let_def transferred_sel)
  next
    case False
    then show ?thesis using assms(2) e frame
      by (simp add: setOutputDataRate_result Let_def transferred_sel)
  qed
qed

theorem setOutputDataRate_keeps_unrelated_bits_witness:
  "(10::u8) \<le> 11 \<and> \<not> fault_at 0 (bus_of [(0x20, 0x81)] [])
   \<and> (\<exists>st bus' w. LIS3MDL_setOutputDataRate 0 10 (bus_of [(0x20, 0x81)] []) = (st, bus')
       \<and> accesses bus' = accesses (bus_of [(0x20, 0x81)] []) @
            [I2C_READ I2C_BUS_ADDR REG_CTRL_REG_1 NUM_OF_BYTES_1,
             I2C_WRITE I2C_BUS_ADDR REG_CTRL_REG_1 NUM_OF_BYTES_1 [w]]
       \<and> (\<forall>n. n \<notin> {1, 2, 3, 4, 5, 6} \<longrightarrow>
              bit w n = bit (registers (bus_of [(0x20, 0x81)] []) REG_CTRL_REG_1) n)
       \<and> (\<not> fault_at 1 (bus_of [(0x20, 0x81)] []) \<longrightarrow>
              st = STATUS_MAG_OK \<and> registers bus' REG_CTRL_REG_1 = w))
   \<and> \<not> fault_at 1 (bus_of [(0x20, 0x81)] [])"
proof -
  have r: "(10::u8) \<le> 11" by simp
  have b: "\<not> fault_at 0 (bus_of [(0x20, 0x81)] [])" "\<not> fault_at 1 (bus_of [(0x20, 0x81)] [])"
    by (simp_all add: bus_of_sel fault_at_def)
  from setOutputDataRate_keeps_unrelated_bits [OF r b(1), of 0] r b
  show ?thesis by blast
qed

text \<open>
  C3, as stated, says that every operation rejects an invalid input before any bus access.
  \<open>LIS3MDL_setOutputDataRate\<close> does not: called with the undefined rate code 15 it first
  reads control register 1, so its trace holds one read, and when that read fails it returns
  \<open>STATUS_BUS_ERROR\<close>, not \<open>STATUS_MAG_ERROR\<close>.
\<close>

theorem setOutputDataRate_invalid_rate_reads_first:
  "fst (LIS3MDL_setOutputDataRate 0 15 (bus_of [] [])) = STATUS_MAG_ERROR
   \<and> accesses (snd (LIS3MDL_setOutputDataRate 0 15 (bus_of [] [])))
       = [I2C_READ 0x1C 0x20 1]
   \<and> accesses (snd (LIS3MDL_setOutputDataRate 0 15 (bus_of [] []))) \<noteq> []
   \<and> fst (LIS3MDL_setOutputDataRate 0 15 (bus_of [] [True])) = STATUS_BUS_ERROR
   \<and> fst (LIS3MDL_setOutputDataRate 0 15 (bus_of [] [True])) \<noteq> STATUS_MAG_ERROR"
  by code_simp

text \<open>
  C3, amended. A null output pointer (\<open>LIS3MDL_getFullScaleConfig\<close>,
  \<open>LIS3MDL_getOutputDataRate\<close>, \<open>LIS3MDL_readAxisData\<close>), an axis selector above 2 and an
  enable flag above 1 return \<open>STATUS_MAG_ERROR\<close> and leave the bus exactly as it was: no
  transfer is attempted. \<open>LIS3MDL_setOutputDataRate\<close> called with a rate code above 11
  attempts exactly one transfer, the read of control register 1, and no write; the registers
  are unchanged, and the status is \<open>STATUS_MAG_ERROR\<close> when that read succeeds and
  \<open>STATUS_BUS_ERROR\<close> when it fails.
\<close>

theorem invalid_input_handling:
  "LIS3MDL_getFullScaleConfig None bus = (STATUS_MAG_ERROR, None, bus)
   \<and> LIS3MDL_getOutputDataRate None bus = (STATUS_MAG_ERROR, None, bus)
   \<and> LIS3MDL_readAxisData axis None bus = (STATUS_MAG_ERROR, None, bus)
   \<and> (2 < axis \<longrightarrow> LIS3MDL_readAxisData axis p bus = (STATUS_MAG_ERROR, p, bus))
   \<and> (1 < e \<longrightarrow> LIS3MDL_enableDisableIntPin e bus = (STATUS_MAG_ERROR, bus))
   \<and> (11 < rate \<longrightarrow>
        (\<exists>bus'. LIS3MDL_setOutputDataRate om rate bus =
                  (if fault_at 0 bus then STATUS_BUS_ERROR else STATUS_MAG_ERROR, bus')
           \<and> accesses bus' = accesses bus @ [I2C_READ I2C_BUS_ADDR REG_CTRL_REG_1 NUM_OF_BYTES_1]
           \<and> registers bus' = registers bus))"
proof (intro conjI impI)
  show "LIS3MDL_getFullScaleConfig None bus = (STATUS_MAG_ERROR, None, bus)"
    by (simp add: getFullScaleConfig_result)
  show "LIS3MDL_getOutputDataRate None bus = (STATUS_MAG_ERROR, None, bus)"
    by (simp add: getOutputDataRate_result)
  show "LIS3MDL_readAxisData axis None bus = (STATUS_MAG_ERROR, None, bus)"
    by (simp add: readAxisData_result)
  show "LIS3MDL_readAxisData axis p bus = (STATUS_MAG_ERROR, p, bus)" if "2 < axis"
    using that by (simp add: readAxisData_result axisRegVal_invalid)
  show "LIS3MDL_enableDisableIntPin e bus = (STATUS_MAG_ERROR, bus)" if "1 < e"
    using that by (simp add: enableDisableIntPin_result)
  show "\<exists>bus'. LIS3MDL_setOutputDataRate om rate bus =
            (if fault_at 0 bus then STATUS_BUS_ERROR else STATUS_MAG_ERROR, bus')
      \<and> accesses bus' = accesses bus @ [I2C_READ I2C_BUS_ADDR REG_CTRL_REG_1 NUM_OF_BYTES_1]
      \<and> registers bus' = registers bus" if "11 < rate"
    using encode_invalid [OF that, of om]
    by (simp add: setOutputDataRate_result Let_def transferred_sel)
qed

theorem invalid_input_handling_witness:
  "LIS3MDL_getFullScaleConfig None (bus_of [] []) = (STATUS_MAG_ERROR, None, bus_of [] [])
   \<and> LIS3MDL_getOutputDataRate None (bus_of [] []) = (STATUS_MAG_ERROR, None, bus_of [] [])
   \<and> LIS3MDL_readAxisData 3 None (bus_of [] []) = (STATUS_MAG_ERROR, None, bus_of [] [])
   \<and> (2::u8) < 3
   \<and> LIS3MDL_readAxisData 3 (Some 0) (bus_of [] []) = (STATUS_MAG_ERROR, Some 0, bus_of [] [])
   \<and> (1::u8) < 2
   \<and> LIS3MDL_enableDisableIntPin 2 (bus_of [] []) = (STATUS_MAG_ERROR, bus_of [] [])
   \<and> (11::u8) < 15
   \<and> (\<exists>bus'. LIS3MDL_setOutputDataRate 0 15 (bus_of [] []) =
                  (if fault_at 0 (bus_of [] []) then STATUS_BUS_ERROR else STATUS_MAG_ERROR, bus')
           \<and> accesses bus' = accesses (bus_of [] [])
                @ [I2C_READ I2C_BUS_ADDR REG_CTRL_REG_1 NUM_OF_BYTES_1]
           \<and> registers bus' = registers (bus_of [] []))"
proof -
  have h: "(2::u8) < 3" "(1::u8) < 2" "(11::u8) < 15" by simp_all
  from invalid_input_handling [where axis = 3 and bus = "bus_of [] []" and p = "Some 0"
      and e = 2 and rate = 15 and om = 0] h
  show ?thesis by blast
qed

text \<open>
  C4. The claim is that a normal rate code (0..7) always leaves the fast flag (bit 1) of
  the written byte at 0. Evaluated on a register that holds \<open>0x02\<close> (fast flag set,
  the byte that setting 1000 Hz leaves behind), setting 5 Hz (code 3) writes \<open>0x0E\<close>, whose
  bit 1 is set, and \<open>LIS3MDL_getOutputDataRate\<close> then reports code 11 (1000 Hz).
\<close>

theorem setOutputDataRate_stale_fast_flag:
  "fst (LIS3MDL_setOutputDataRate 0 3 (bus_of [(0x20, 0x02)] [])) = STATUS_MAG_OK
   \<and> accesses (snd (LIS3MDL_setOutputDataRate 0 3 (bus_of [(0x20, 0x02)] [])))
       = [I2C_READ 0x1C 0x20 1, I2C_WRITE 0x1C 0x20 1 [0x0E]]
   \<and> bit (0x0E :: u8) 1
   \<and> fst (snd (LIS3MDL_getOutputDataRate (Some 0)
        (snd (LIS3MDL_setOutputDataRate 0 3 (bus_of [(0x20, 0x02)] []))))) = Some 11"
  by code_simp

text \<open>
  The same defect reached through the driver alone: on an all-zero register, setting
  1000 Hz, then 5 Hz, then reading the rate back gives 1000 Hz.
\<close>

theorem setOutputDataRate_after_fast_rate:
  "(let bus0 = bus_of [] [];
        (st1, bus1) = LIS3MDL_setOutputDataRate 0 11 bus0;
        (st2, bus2) = LIS3MDL_setOutputDataRate 0 3 bus1;
        (st3, out, bus3) = LIS3MDL_getOutputDataRate (Some 0) bus2
    in (st1, st2, st3, registers bus2 0x20, out))
   = (STATUS_MAG_OK, STATUS_MAG_OK, STATUS_MAG_OK, 0x0E, Some 11)"
  by code_simp

text \<open>
  C5, as stated, says that the bytes \<open>[0xFF, 0xFF]\<close> are stored as the signed sample -1.
  The output parameter is a \<open>uint16_t\<close>: the value the caller receives is 65535.
\<close>

theorem readAxisData_stores_unsigned:
  "map_option uint (fst (snd (LIS3MDL_readAxisData 0 (Some 0)
      (bus_of [(0x28, 0xFF), (0x29, 0xFF)] [])))) = Some 65535
   \<and> map_option uint (fst (snd (LIS3MDL_readAxisData 0 (Some 0)
      (bus_of [(0x28, 0xFF), (0x29, 0xFF)] [])))) \<noteq> Some (- 1)"
  by code_simp

text \<open>
  C5, amended. For a selector 0, 1 or 2, a non-null pointer and a successful two-byte read at
  the low-byte address of that axis, \<open>LIS3MDL_readAxisData\<close> returns \<open>STATUS_MAG_OK\<close>
  and stores the unsigned 16-bit word \<open>(highByte << 8) | lowByte\<close>, the low byte being the
  one at the lower address: its value is \<open>256 * highByte + lowByte\<close>. The bytes
  \<open>[0x34, 0x12]\<close> give \<open>0x1234\<close> (4660); the bytes \<open>[0xFF, 0xFF]\<close> give \<open>0xFFFF\<close>,
  which is 65535 as the \<open>uint16_t\<close> handed to the caller and -1 only when the caller reads
  it as two's complement. A selector above 2 returns \<open>STATUS_MAG_ERROR\<close> and leaves the
  bus as it was.
\<close>

theorem readAxisData_sample:
  "(axis \<le> 2 \<and> \<not> fault_at 0 bus
      \<and> reg = (if axis = 0 then LIS3MDL_OUT_X_L_REG
                else if axis = 1 then LIS3MDL_OUT_Y_L_REG else LIS3MDL_OUT_Z_L_REG) \<longrightarrow>
      (\<exists>w. LIS3MDL_readAxisData axis (Some old) bus =
              (STATUS_MAG_OK, Some w, transferred [I2C_READ I2C_BUS_ADDR reg NUM_OF_BYTES_2] bus)
          \<and> uint w = 256 * uint (registers bus (reg + 1)) + uint (registers bus reg)
          \<and> (registers bus reg = 0x34 \<and> registers bus (reg + 1) = 0x12 \<longrightarrow> w = 0x1234)
          \<and> (registers bus reg = 0xFF \<and> registers bus (reg + 1) = 0xFF \<longrightarrow>
                w = 0xFFFF \<and> uint w = 65535 \<and> sint w = - 1)))
   \<and> (2 < axis \<longrightarrow> LIS3MDL_readAxisData axis p bus = (STATUS_MAG_ERROR, p, bus))"
proof (intro conjI impI)
  assume a: "axis \<le> 2 \<and> \<not> fault_at 0 bus
      \<and> reg = (if axis = 0 then LIS3MDL_OUT_X_L_REG
                else if axis = 1 then LIS3MDL_OUT_Y_L_REG else LIS3MDL_OUT_Z_L_REG)"
  then have "axis \<le> 3" by (simp add: word_le_nat_alt)
  then have "axis \<in> {0, 1, 2, 3}" by (rule le3_cases)
  with a have r: "readAxisData_axisRegVal axis = Some reg"
    by (auto simp add: axisRegVal_word)
  define w :: u16
    where "w = word_of_int (push_bit 8 (uint (registers bus (reg + 1))) OR uint (registers bus reg))"
  have res: "LIS3MDL_readAxisData axis (Some old) bus =
      (STATUS_MAG_OK, Some w, transferred [I2C_READ I2C_BUS_ADDR reg NUM_OF_BYTES_2] bus)"
    using a r by (simp add: readAxisData_result w_def)
  have u: "uint w = 256 * uint (registers bus (reg + 1)) + uint (registers bus reg)"
    unfolding w_def by (rule sample_uint)
  have e1: "registers bus reg = 0x34 \<and> registers bus (reg + 1) = 0x12 \<longrightarrow> w = 0x1234"
    by (auto simp only: w_def sample_1234)
  have e2: "registers bus reg = 0xFF \<and> registers bus (reg + 1) = 0xFF \<longrightarrow>
      w = 0xFFFF \<and> uint w = 65535 \<and> sint w = - 1"
    by (auto simp only: w_def sample_FFFF uint_FFFF sint_FFFF)
  show "\<exists>w. LIS3MDL_readAxisData axis (Some old) bus =
              (STATUS_MAG_OK, Some w, transferred [I2C_READ I2C_BUS_ADDR reg NUM_OF_BYTES_2] bus)
          \<and> uint w = 256 * uint (registers bus (reg + 1)) + uint (registers bus reg)
          \<and> (registers bus reg = 0x34 \<and> registers bus (reg + 1) = 0x12 \<longrightarrow> w = 0x1234)
          \<and> (registers bus reg = 0xFF \<and> registers bus (reg + 1) = 0xFF \<longrightarrow>
                w = 0xFFFF \<and> uint w = 65535 \<and> sint w = - 1)"
    using res u e1 e2 by (intro exI [of _ w] conjI)
next
  assume "2 < axis"
  then show "LIS3MDL_readAxisData axis p bus = (STATUS_MAG_ERROR, p, bus)"
    by (simp add: readAxisData_result axisRegVal_invalid)
qed

theorem readAxisData_sample_witness:
  "(0::u8) \<le> 2
   \<and> \<not> fault_at 0 (bus_of [(0x28, 0x34), (0x29, 0x12)] [])
   \<and> registers (bus_of [(0x28, 0x34), (0x29, 0x12)] []) LIS3MDL_OUT_X_L_REG = 0x34
   \<and> registers (bus_of [(0x28, 0x34), (0x29, 0x12)] []) (LIS3MDL_OUT_X_L_REG + 1) = 0x12
   \<and> (\<exists>w. LIS3MDL_readAxisData 0 (Some 0) (bus_of [(0x28, 0x34), (0x29, 0x12)] []) =
            (STATUS_MAG_OK, Some w,
             transferred [I2C_READ I2C_BUS_ADDR LIS3MDL_OUT_X_L_REG NUM_OF_BYTES_2]
               (bus_of [(0x28, 0x34), (0x29, 0x12)] []))
          \<and> w = 0x1234)
   \<and> \<not> fault_at 0 (bus_of [(0x28, 0xFF), (0x29, 0xFF)] [])
   \<and> registers (bus_of [(0x28, 0xFF), (0x29, 0xFF)] []) LIS3MDL_OUT_X_L_REG = 0xFF
   \<and> registers (bus_of [(0x28, 0xFF), (0x29, 0xFF)] []) (LIS3MDL_OUT_X_L_REG + 1) = 0xFF
   \<and> (\<exists>w. LIS3MDL_readAxisData 0 (Some 0) (bus_of [(0x28, 0xFF), (0x29, 0xFF)] []) =
            (STATUS_MAG_OK, Some w,
             transferred [I2C_READ I2C_BUS_ADDR LIS3MDL_OUT_X_L_REG NUM_OF_BYTES_2]
               (bus_of [(0x28, 0xFF), (0x29, 0xFF)] []))
          \<and> w = 0xFFFF \<and> uint w = 65535 \<and> sint w = - 1)
   \<and> (2::u8) < 3
   \<and> LIS3MDL_readAxisData 3 (Some 0) (bus_of [] []) = (STATUS_MAG_ERROR, Some 0, bus_of [] [])"
proof -
  have h1: "(0::u8) \<le> 2 \<and> \<not> fault_at 0 (bus_of [(0x28, 0x34), (0x29, 0x12)] [])
      \<and> LIS3MDL_OUT_X_L_REG = (if (0::u8) = 0 then LIS3MDL_OUT_X_L_REG
            else if (0::u8) = 1 then LIS3MDL_OUT_Y_L_REG else LIS3MDL_OUT_Z_L_REG)"
    by (simp add: fault_at_def bus_of_sel)
  have r1: "registers (bus_of [(0x28, 0x34), (0x29, 0x12)] []) LIS3MDL_OUT_X_L_REG = 0x34
      \<and> registers (bus_of [(0x28, 0x34), (0x29, 0x12)] []) (LIS3MDL_OUT_X_L_REG + 1) = 0x12"
    by (simp add: bus_of_sel LIS3MDL_OUT_X_L_REG_def)
  have h2: "(0::u8) \<le> 2 \<and> \<not> fault_at 0 (bus_of [(0x28, 0xFF), (0x29, 0xFF)] [])
      \<and> LIS3MDL_OUT_X_L_REG = (if (0::u8) = 0 then LIS3MDL_OUT_X_L_REG
            else if (0::u8) = 1 then LIS3MDL_OUT_Y_L_REG else LIS3MDL_OUT_Z_L_REG)"
    by (simp add: fault_at_def bus_of_sel)
  have r2: "registers (bus_of [(0x28, 0xFF), (0x29, 0xFF)] []) LIS3MDL_OUT_X_L_REG = 0xFF
      \<and> registers (bus_of [(0x28, 0xFF), (0x29, 0xFF)] []) (LIS3MDL_OUT_X_L_REG + 1) = 0xFF"
    by (simp add: bus_of_sel LIS3MDL_OUT_X_L_REG_def)
  have h3: "(2::u8) < 3" by simp
  note a = readAxisData_sample [where axis = 0 and reg = LIS3MDL_OUT_X_L_REG and old = 0
      and bus = "bus_of [(0x28, 0x34), (0x29, 0x12)] []"]
  note b = readAxisData_sample [where axis = 0 and reg = LIS3MDL_OUT_X_L_REG and old = 0
      and bus = "bus_of [(0x28, 0xFF), (0x29, 0xFF)] []"]
  note c = readAxisData_sample [where axis = 3 and p = "Some 0" and bus = "bus_of [] []"]
  from a h1 r1 have c1: "\<exists>w. LIS3MDL_readAxisData 0 (Some 0) (bus_of [(0x28, 0x34), (0x29, 0x12)] []) =
            (STATUS_MAG_OK, Some w,
             transferred [I2C_READ I2C_BUS_ADDR LIS3MDL_OUT_X_L_REG NUM_OF_BYTES_2]
               (bus_of [(0x28, 0x34), (0x29, 0x12)] []))
          \<and> w = 0x1234"
    by blast
  from b h2 r2 have c2: "\<exists>w. LIS3MDL_readAxisData 0 (Some 0) (bus_of [(0x28, 0xFF), (0x29, 0xFF)] []) =
            (STATUS_MAG_OK, Some w,
             transferred [I2C_READ I2C_BUS_ADDR LIS3MDL_OUT_X_L_REG NUM_OF_BYTES_2]
               (bus_of [(0x28, 0xFF), (0x29, 0xFF)] []))
          \<and> w = 0xFFFF \<and> uint w = 65535 \<and> sint w = - 1"
    by blast
  from c h3 have c3: "LIS3MDL_readAxisData 3 (Some 0) (bus_of [] [])
      = (STATUS_MAG_ERROR, Some 0, bus_of [] [])"
    by blast
  from h1 r1 c1 h2 r2 c2 h3 c3 show ?thesis by (intro conjI) (elim conjE, assumption)+
qed

text \<open>
  C6. For every byte in the interrupt configuration register and an input of 0 or 1, once
  the read has succeeded the byte sent by the write of \<open>LIS3MDL_enableDisableIntPin\<close> has
  bit 0 (IEN) set exactly when the input is 1 and agrees with the byte read on every other
  bit; when the write succeeds that byte is the new register content. A call with 1 followed
  by a call with 0, all four transfers succeeding, leaves every bit other than bit 0 as it
  was before the first call, with bit 0 set after the first call and clear after the second.
\<close>

theorem enableDisableIntPin_changes_only_IEN:
  assumes "e = 0 \<or> e = 1" "\<not> fault_at 0 bus"
  shows "(\<exists>st bus' w. LIS3MDL_enableDisableIntPin e bus = (st, bus')
           \<and> accesses bus' = accesses bus @
                [I2C_READ I2C_BUS_ADDR LIS3MDL_REG_INT_CFG NUM_OF_BYTES_1,
                 I2C_WRITE I2C_BUS_ADDR LIS3MDL_REG_INT_CFG NUM_OF_BYTES_1 [w]]
           \<and> bit w 0 = (e = 1)
           \<and> (\<forall>n. n \<noteq> 0 \<longrightarrow> bit w n = bit (registers bus LIS3MDL_REG_INT_CFG) n)
           \<and> (\<not> fault_at 1 bus \<longrightarrow>
                st = STATUS_MAG_OK \<and> registers bus' LIS3MDL_REG_INT_CFG = w))
       \<and> (\<not> fault_at 1 bus \<and> \<not> fault_at 2 bus \<and> \<not> fault_at 3 bus \<longrightarrow>
           (\<exists>bus1 bus2. LIS3MDL_enableDisableIntPin 1 bus = (STATUS_MAG_OK, bus1)
              \<and> LIS3MDL_enableDisableIntPin 0 bus1 = (STATUS_MAG_OK, bus2)
              \<and> bit (registers bus1 LIS3MDL_REG_INT_CFG) 0
              \<and> \<not> bit (registers bus2 LIS3MDL_REG_INT_CFG) 0
              \<and> (\<forall>n. n \<noteq> 0 \<longrightarrow>
                    bit (registers bus1 LIS3MDL_REG_INT_CFG) n
                      = bit (registers bus LIS3MDL_REG_INT_CFG) n
                  \<and> bit (registers bus2 LIS3MDL_REG_INT_CFG) n
                      = bit (registers bus LIS3MDL_REG_INT_CFG) n)))"
proof (intro conjI impI)
  from assms(1) have "e \<le> 1" by auto
  then have e: "\<not> 1 < e" by (simp add: not_less)
  show "\<exists>st bus' w. LIS3MDL_enableDisableIntPin e bus = (st, bus')
           \<and> accesses bus' = accesses bus @
                [I2C_READ I2C_BUS_ADDR LIS3MDL_REG_INT_CFG NUM_OF_BYTES_1,
                 I2C_WRITE I2C_BUS_ADDR LIS3MDL_REG_INT_CFG NUM_OF_BYTES_1 [w]]
           \<and> bit w 0 = (e = 1)
           \<and> (\<forall>n. n \<noteq> 0 \<longrightarrow> bit w n = bit (registers bus LIS3MDL_REG_INT_CFG) n)
           \<and> (\<not> fault_at 1 bus \<longrightarrow>
                st = STATUS_MAG_OK \<and> registers bus' LIS3MDL_REG_INT_CFG = w)"
  proof (cases "fault_at 1 bus")
    case True
    then show ?thesis using e assms(2)
      by (simp add: enableDisableIntPin_result Let_def transferred_sel intPin_buffer_bits)
  next
    case False
    then show ?thesis using e assms(2)
      by (simp add: enableDisableIntPin_result Let_def transferred_sel intPin_buffer_bits)
  qed
next
  assume ok: "\<not> fault_at 1 bus \<and> \<not> fault_at 2 bus \<and> \<not> fault_at 3 bus"
  define b1 where "b1 = enableDisableIntPin_buffer 1 (registers bus LIS3MDL_REG_INT_CFG)"
  define bus1 where "bus1 =
     (transferred [I2C_READ I2C_BUS_ADDR LIS3MDL_REG_INT_CFG NUM_OF_BYTES_1,
                   I2C_WRITE I2C_BUS_ADDR LIS3MDL_REG_INT_CFG NUM_OF_BYTES_1 [b1]] bus)
       \<lparr>registers := (registers bus)(LIS3MDL_REG_INT_CFG := b1)\<rparr>"
  have s1: "LIS3MDL_enableDisableIntPin 1 bus = (STATUS_MAG_OK, bus1)"
    unfolding bus1_def b1_def using assms(2) ok by (intro enableDisableIntPin_ok) simp_all
  have f1: "\<not> fault_at 0 bus1" "\<not> fault_at 1 bus1"
    using ok by (simp_all add: bus1_def fault_at_registers_update fault_at_transferred
        numeral_2_eq_2 numeral_3_eq_3)
  have r1: "registers bus1 LIS3MDL_REG_INT_CFG = b1" by (simp add: bus1_def)
  define b2 where "b2 = enableDisableIntPin_buffer 0 b1"
  define bus2 where "bus2 =
     (transferred [I2C_READ I2C_BUS_ADDR LIS3MDL_REG_INT_CFG NUM_OF_BYTES_1,
                   I2C_WRITE I2C_BUS_ADDR LIS3MDL_REG_INT_CFG NUM_OF_BYTES_1 [b2]] bus1)
       \<lparr>registers := (registers bus1)(LIS3MDL_REG_INT_CFG := b2)\<rparr>"
  have s2: "LIS3MDL_enableDisableIntPin 0 bus1 = (STATUS_MAG_OK, bus2)"
    unfolding bus2_def b2_def r1 [symmetric] using f1 by (intro enableDisableIntPin_ok) simp_all
  have r2: "registers bus2 LIS3MDL_REG_INT_CFG = b2" by (simp add: bus2_def)
  have bits: "bit b1 0" "\<not> bit b2 0"
    "\<And>n. n \<noteq> 0 \<Longrightarrow> bit b1 n = bit (registers bus LIS3MDL_REG_INT_CFG) n"
    "\<And>n. n \<noteq> 0 \<Longrightarrow> bit b2 n = bit (registers bus LIS3MDL_REG_INT_CFG) n"
    by (simp_all add: b1_def b2_def intPin_buffer_bits)
  show "\<exists>bus1 bus2. LIS3MDL_enableDisableIntPin 1 bus = (STATUS_MAG_OK, bus1)
              \<and> LIS3MDL_enableDisableIntPin 0 bus1 = (STATUS_MAG_OK, bus2)
              \<and> bit (registers bus1 LIS3MDL_REG_INT_CFG) 0
              \<and> \<not> bit (registers bus2 LIS3MDL_REG_INT_CFG) 0
              \<and> (\<forall>n. n \<noteq> 0 \<longrightarrow>
                    bit (registers bus1 LIS3MDL_REG_INT_CFG) n
                      = bit (registers bus LIS3MDL_REG_INT_CFG) n
                  \<and> bit (registers bus2 LIS3MDL_REG_INT_CFG) n
                      = bit (registers bus LIS3MDL_REG_INT_CFG) n)"
    using s1 s2 bits unfolding r1 [symmetric] r2 [symmetric]
    by (intro exI [of _ bus1] exI [of _ bus2] conjI allI impI) simp_all
qed

theorem enableDisableIntPin_changes_only_IEN_witness:
  "((1::u8) = 0 \<or> (1::u8) = 1)
   \<and> \<not> fault_at 0 (bus_of [(0x30, 0xAA)] [])
   \<and> \<not> fault_at 1 (bus_of [(0x30, 0xAA)] [])
   \<and> \<not> fault_at 2 (bus_of [(0x30, 0xAA)] [])
   \<and> \<not> fault_at 3 (bus_of [(0x30, 0xAA)] [])
   \<and> (\<exists>st bus' w. LIS3MDL_enableDisableIntPin 1 (bus_of [(0x30, 0xAA)] []) = (st, bus')
           \<and> accesses bus' = accesses (bus_of [(0x30, 0xAA)] []) @
                [I2C_READ I2C_BUS_ADDR LIS3MDL_REG_INT_CFG NUM_OF_BYTES_1,
                 I2C_WRITE I2C_BUS_ADDR LIS3MDL_REG_INT_CFG NUM_OF_BYTES_1 [w]]
           \<and> bit w 0 = ((1::u8) = 1)
           \<and> (\<forall>n. n \<noteq> 0 \<longrightarrow>
                 bit w n = bit (registers (bus_of [(0x30, 0xAA)] []) LIS3MDL_REG_INT_CFG) n)
           \<and> (\<not> fault_at 1 (bus_of [(0x30, 0xAA)] []) \<longrightarrow>
                st = STATUS_MAG_OK \<and> registers bus' LIS3MDL_REG_INT_CFG = w))
   \<and> (\<exists>bus1 bus2. LIS3MDL_enableDisableIntPin 1 (bus_of [(0x30, 0xAA)] []) = (STATUS_MAG_OK, bus1)
          \<and> LIS3MDL_enableDisableIntPin 0 bus1 = (STATUS_MAG_OK, bus2)
          \<and> bit (registers bus1 LIS3MDL_REG_INT_CFG) 0
          \<and> \<not> bit (registers bus2 LIS3MDL_REG_INT_CFG) 0
          \<and> (\<forall>n. n \<noteq> 0 \<longrightarrow>
                bit (registers bus1 LIS3MDL_REG_INT_CFG) n
                  = bit (registers (bus_of [(0x30, 0xAA)] []) LIS3MDL_REG_INT_CFG) n
              \<and> bit (registers bus2 LIS3MDL_REG_INT_CFG) n
                  = bit (registers (bus_of [(0x30, 0xAA)] []) LIS3MDL_REG_INT_CFG) n))"
proof -
  have e: "(1::u8) = 0 \<or> (1::u8) = 1" by simp
  have f: "\<not> fault_at 0 (bus_of [(0x30, 0xAA)] [])" "\<not> fault_at 1 (bus_of [(0x30, 0xAA)] [])"
    "\<not> fault_at 2 (bus_of [(0x30, 0xAA)] [])" "\<not> fault_at 3 (bus_of [(0x30, 0xAA)] [])"
    by (simp_all add: fault_at_def bus_of_sel)
  from enableDisableIntPin_changes_only_IEN [OF e f(1)] e f
  show ?thesis by blast
qed

text \<open>
  C7. When control register 2 holds a code \<open>c\<close> of 0..3 at bits 6:5, whatever its other
  bits, \<open>LIS3MDL_getFullScaleConfig\<close> with a non-null pointer and a successful read
  returns \<open>STATUS_MAG_OK\<close> and stores exactly \<open>c\<close>. Its range check answers
  \<open>STATUS_MAG_ERROR\<close>, the pointee untouched, for every extracted value above 3.
\<close>

theorem getFullScaleConfig_returns_code:
  "(c \<le> 3 \<and> other AND 0x60 = 0 \<and> registers bus REG_CTRL_REG_2 = push_bit 5 c OR other
      \<and> \<not> fault_at 0 bus \<longrightarrow>
      LIS3MDL_getFullScaleConfig (Some old) bus =
        (STATUS_MAG_OK, Some c,
         transferred [I2C_READ I2C_BUS_ADDR REG_CTRL_REG_2 NUM_OF_BYTES_1] bus))
   \<and> (3 < v \<longrightarrow> getFullScaleConfig_store v p = (STATUS_MAG_ERROR, p))"
proof (intro conjI impI)
  assume a: "c \<le> 3 \<and> other AND 0x60 = 0
      \<and> registers bus REG_CTRL_REG_2 = push_bit 5 c OR other \<and> \<not> fault_at 0 bus"
  then have "drop_bit 5 (registers bus REG_CTRL_REG_2 AND 0x60) = c"
    using fs_code_at_bits_6_5 [of c other] by simp
  moreover have "\<not> 3 < c" using a by (simp add: not_less)
  ultimately show "LIS3MDL_getFullScaleConfig (Some old) bus =
        (STATUS_MAG_OK, Some c,
         transferred [I2C_READ I2C_BUS_ADDR REG_CTRL_REG_2 NUM_OF_BYTES_1] bus)"
    using a by (simp only: getFullScaleConfig_result store_word) simp
next
  assume "3 < v"
  then show "getFullScaleConfig_store v p = (STATUS_MAG_ERROR, p)"
    by (simp add: store_word)
qed

theorem getFullScaleConfig_returns_code_witness:
  "(2::u8) \<le> 3 \<and> (0x85::u8) AND 0x60 = 0
   \<and> registers (bus_of [(0x21, 0xC5)] []) REG_CTRL_REG_2 = push_bit 5 2 OR 0x85
   \<and> \<not> fault_at 0 (bus_of [(0x21, 0xC5)] [])
   \<and> LIS3MDL_getFullScaleConfig (Some 0) (bus_of [(0x21, 0xC5)] []) =
        (STATUS_MAG_OK, Some 2,
         transferred [I2C_READ I2C_BUS_ADDR REG_CTRL_REG_2 NUM_OF_BYTES_1]
           (bus_of [(0x21, 0xC5)] []))
   \<and> (3::u8) < 4
   \<and> getFullScaleConfig_store 4 (Some 0) = (STATUS_MAG_ERROR, Some 0)"
proof -
  have h: "(2::u8) \<le> 3 \<and> (0x85::u8) AND 0x60 = 0
      \<and> registers (bus_of [(0x21, 0xC5)] []) REG_CTRL_REG_2 = push_bit 5 2 OR 0x85
      \<and> \<not> fault_at 0 (bus_of [(0x21, 0xC5)] [])"
    by (simp add: fault_at_def bus_of_sel REG_CTRL_REG_2_def)
  have v: "(3::u8) < 4" by simp
  from getFullScaleConfig_returns_code [where c = 2 and other = "0x85"
      and bus = "bus_of [(0x21, 0xC5)] []" and old = 0 and v = 4 and p = "Some 0"] h v
  show ?thesis by blast
qed

text \<open>
  C8. When the bus read fails, each of the five operations (called with a non-null pointer,
  a flag of 0 or 1, a valid axis) returns \<open>STATUS_BUS_ERROR\<close>; the pointee keeps its
  value, the registers are unchanged and the trace grows by that one read only, so no write
  is attempted. When the read succeeds and the write fails, \<open>LIS3MDL_setOutputDataRate\<close>
  (valid rate) and \<open>LIS3MDL_enableDisableIntPin\<close> return \<open>STATUS_BUS_ERROR\<close>, the
  registers unchanged and the trace grown by the read and the write.
\<close>

theorem bus_failure_gives_bus_error:
  "(fault_at 0 bus \<longrightarrow>
      LIS3MDL_getFullScaleConfig (Some v) bus =
        (STATUS_BUS_ERROR, Some v,
         transferred [I2C_READ I2C_BUS_ADDR REG_CTRL_REG_2 NUM_OF_BYTES_1] bus)
    \<and> LIS3MDL_setOutputDataRate om rate bus =
        (STATUS_BUS_ERROR, transferred [I2C_READ I2C_BUS_ADDR REG_CTRL_REG_1 NUM_OF_BYTES_1] bus)
    \<and> LIS3MDL_getOutputDataRate (Some v) bus =
        (STATUS_BUS_ERROR, Some v,
         transferred [I2C_READ I2C_BUS_ADDR REG_CTRL_REG_1 NUM_OF_BYTES_1] bus)
    \<and> (e \<le> 1 \<longrightarrow> LIS3MDL_enableDisableIntPin e bus =
        (STATUS_BUS_ERROR,
         transferred [I2C_READ I2C_BUS_ADDR LIS3MDL_REG_INT_CFG NUM_OF_BYTES_1] bus))
    \<and> (readAxisData_axisRegVal axis = Some reg \<longrightarrow>
         LIS3MDL_readAxisData axis (Some s) bus =
           (STATUS_BUS_ERROR, Some s,
            transferred [I2C_READ I2C_BUS_ADDR reg NUM_OF_BYTES_2] bus)))
   \<and> (\<not> fault_at 0 bus \<and> fault_at 1 bus \<longrightarrow>
        (rate \<le> 11 \<longrightarrow> (\<exists>w. LIS3MDL_setOutputDataRate om rate bus =
           (STATUS_BUS_ERROR,
            transferred [I2C_READ I2C_BUS_ADDR REG_CTRL_REG_1 NUM_OF_BYTES_1,
                         I2C_WRITE I2C_BUS_ADDR REG_CTRL_REG_1 NUM_OF_BYTES_1 [w]] bus)))
      \<and> (e \<le> 1 \<longrightarrow> (\<exists>w. LIS3MDL_enableDisableIntPin e bus =
           (STATUS_BUS_ERROR,
            transferred [I2C_READ I2C_BUS_ADDR LIS3MDL_REG_INT_CFG NUM_OF_BYTES_1,
                         I2C_WRITE I2C_BUS_ADDR LIS3MDL_REG_INT_CFG NUM_OF_BYTES_1 [w]] bus))))
   \<and> registers (transferred as bus) = registers bus
   \<and> accesses (transferred as bus) = accesses bus @ as"
proof -
  have rd: "LIS3MDL_getFullScaleConfig (Some v) bus =
        (STATUS_BUS_ERROR, Some v,
         transferred [I2C_READ I2C_BUS_ADDR REG_CTRL_REG_2 NUM_OF_BYTES_1] bus)
    \<and> LIS3MDL_setOutputDataRate om rate bus =
        (STATUS_BUS_ERROR, transferred [I2C_READ I2C_BUS_ADDR REG_CTRL_REG_1 NUM_OF_BYTES_1] bus)
    \<and> LIS3MDL_getOutputDataRate (Some v) bus =
        (STATUS_BUS_ERROR, Some v,
         transferred [I2C_READ I2C_BUS_ADDR REG_CTRL_REG_1 NUM_OF_BYTES_1] bus)
    \<and> (e \<le> 1 \<longrightarrow> LIS3MDL_enableDisableIntPin e bus =
        (STATUS_BUS_ERROR,
         transferred [I2C_READ I2C_BUS_ADDR LIS3MDL_REG_INT_CFG NUM_OF_BYTES_1] bus))
    \<and> (readAxisData_axisRegVal axis = Some reg \<longrightarrow>
         LIS3MDL_readAxisData axis (Some s) bus =
           (STATUS_BUS_ERROR, Some s,
            transferred [I2C_READ I2C_BUS_ADDR reg NUM_OF_BYTES_2] bus))"
    if "fault_at 0 bus"
    using that
    by (simp add: getFullScaleConfig_result setOutputDataRate_result getOutputDataRate_result
          enableDisableIntPin_result readAxisData_result Let_def not_less [symmetric])
  have wr1: "\<exists>w. LIS3MDL_setOutputDataRate om rate bus =
           (STATUS_BUS_ERROR,
            transferred [I2C_READ I2C_BUS_ADDR REG_CTRL_REG_1 NUM_OF_BYTES_1,
                         I2C_WRITE I2C_BUS_ADDR REG_CTRL_REG_1 NUM_OF_BYTES_1 [w]] bus)"
    if f: "\<not> fault_at 0 bus \<and> fault_at 1 bus" and r: "rate \<le> 11"
  proof -
    obtain enc where "setOutputDataRate_encode om rate = Some enc"
      using encode_defined [OF r, of om] by blast
    then show ?thesis using f
      by (intro exI [of _ "enc OR registers bus REG_CTRL_REG_1"])
        (simp add: setOutputDataRate_result Let_def)
  qed
  have wr2: "\<exists>w. LIS3MDL_enableDisableIntPin e bus =
           (STATUS_BUS_ERROR,
            transferred [I2C_READ I2C_BUS_ADDR LIS3MDL_REG_INT_CFG NUM_OF_BYTES_1,
                         I2C_WRITE I2C_BUS_ADDR LIS3MDL_REG_INT_CFG NUM_OF_BYTES_1 [w]] bus)"
    if "\<not> fault_at 0 bus \<and> fault_at 1 bus" and "e \<le> 1"
    using that
    by (intro exI [of _ "enableDisableIntPin_buffer e (registers bus LIS3MDL_REG_INT_CFG)"])
      (simp add: enableDisableIntPin_result Let_def not_less [symmetric])
  from rd wr1 wr2 show ?thesis
    by (simp only: transferred_sel) blast
qed

theorem bus_failure_gives_bus_error_witness:
  "fault_at 0 (bus_of [] [True])
   \<and> LIS3MDL_getFullScaleConfig (Some 7) (bus_of [] [True]) =
        (STATUS_BUS_ERROR, Some 7,
         transferred [I2C_READ I2C_BUS_ADDR REG_CTRL_REG_2 NUM_OF_BYTES_1] (bus_of [] [True]))
   \<and> LIS3MDL_setOutputDataRate 0 3 (bus_of [] [True]) =
        (STATUS_BUS_ERROR,
         transferred [I2C_READ I2C_BUS_ADDR REG_CTRL_REG_1 NUM_OF_BYTES_1] (bus_of [] [True]))
   \<and> LIS3MDL_getOutputDataRate (Some 7) (bus_of [] [True]) =
        (STATUS_BUS_ERROR, Some 7,
         transferred [I2C_READ I2C_BUS_ADDR REG_CTRL_REG_1 NUM_OF_BYTES_1] (bus_of [] [True]))
   \<and> (1::u8) \<le> 1
   \<and> LIS3MDL_enableDisableIntPin 1 (bus_of [] [True]) =
        (STATUS_BUS_ERROR,
         transferred [I2C_READ I2C_BUS_ADDR LIS3MDL_REG_INT_CFG NUM_OF_BYTES_1] (bus_of [] [True]))
   \<and> readAxisData_axisRegVal 0 = Some 0x28
   \<and> LIS3MDL_readAxisData 0 (Some 9) (bus_of [] [True]) =
        (STATUS_BUS_ERROR, Some 9,
         transferred [I2C_READ I2C_BUS_ADDR 0x28 NUM_OF_BYTES_2] (bus_of [] [True]))
   \<and> \<not> fault_at 0 (bus_of [] [False, True]) \<and> fault_at 1 (bus_of [] [False, True])
   \<and> (3::u8) \<le> 11
   \<and> (\<exists>w. LIS3MDL_setOutputDataRate 0 3 (bus_of [] [False, True]) =
           (STATUS_BUS_ERROR,
            transferred [I2C_READ I2C_BUS_ADDR REG_CTRL_REG_1 NUM_OF_BYTES_1,
                         I2C_WRITE I2C_BUS_ADDR REG_CTRL_REG_1 NUM_OF_BYTES_1 [w]]
              (bus_of [] [False, True])))
   \<and> (\<exists>w. LIS3MDL_enableDisableIntPin 1 (bus_of [] [False, True]) =
           (STATUS_BUS_ERROR,
            transferred [I2C_READ I2C_BUS_ADDR LIS3MDL_REG_INT_CFG NUM_OF_BYTES_1,
                         I2C_WRITE I2C_BUS_ADDR LIS3MDL_REG_INT_CFG NUM_OF_BYTES_1 [w]]
              (bus_of [] [False, True])))"
proof -
  have f1: "fault_at 0 (bus_of [] [True])"
    and f2: "\<not> fault_at 0 (bus_of [] [False, True]) \<and> fault_at 1 (bus_of [] [False, True])"
    by (simp_all add: fault_at_def bus_of_sel)
  have h: "(1::u8) \<le> 1" "(3::u8) \<le> 11" "readAxisData_axisRegVal 0 = Some 0x28"
    by (simp_all add: axisRegVal_word LIS3MDL_OUT_X_L_REG_def)
  note a = bus_failure_gives_bus_error [where bus = "bus_of [] [True]" and v = 7 and om = 0
      and rate = 3 and e = 1 and axis = 0 and reg = "0x28" and s = 9]
  note b = bus_failure_gives_bus_error [where bus = "bus_of [] [False, True]" and om = 0
      and rate = 3 and e = 1]
  from a f1 h b f2 show ?thesis by blast
qed

text \<open>
  C9. For every byte \<open>B\<close> in control register 1 and every rate code 0..11, once the read
  has succeeded the byte sent by the write of \<open>LIS3MDL_setOutputDataRate\<close> is \<open>B\<close> OR
  the newly encoded bits, so every bit set in \<open>B\<close> is set in it; when the write succeeds
  that byte is the new register content.
\<close>

theorem setOutputDataRate_ors_previous_byte:
  assumes "rate \<le> 11" "\<not> fault_at 0 bus"
  shows "\<exists>enc st bus'. setOutputDataRate_encode om rate = Some enc
       \<and> LIS3MDL_setOutputDataRate om rate bus = (st, bus')
       \<and> accesses bus' = accesses bus @
            [I2C_READ I2C_BUS_ADDR REG_CTRL_REG_1 NUM_OF_BYTES_1,
             I2C_WRITE I2C_BUS_ADDR REG_CTRL_REG_1 NUM_OF_BYTES_1
               [registers bus REG_CTRL_REG_1 OR enc]]
       \<and> (\<forall>n. bit (registers bus REG_CTRL_REG_1) n \<longrightarrow>
                bit (registers bus REG_CTRL_REG_1 OR enc) n)
       \<and> (\<not> fault_at 1 bus \<longrightarrow> st = STATUS_MAG_OK
            \<and> registers bus' REG_CTRL_REG_1 = registers bus REG_CTRL_REG_1 OR enc)"
proof -
  obtain enc where e: "setOutputDataRate_encode om rate = Some enc"
    using encode_defined [OF assms(1), of om] by blast
  show ?thesis
  proof (cases "fault_at 1 bus")
    case True
    then show ?thesis using assms(2) e
      by (simp add: setOutputDataRate_result Let_def transferred_sel bit_or_iff or.commute)
  next
    case False
    then show ?thesis using assms(2) e
      by (simp add: setOutputDataRate_result Let_def transferred_sel bit_or_iff or.commute)
  qed
qed

theorem setOutputDataRate_ors_previous_byte_witness:
  "(2::u8) \<le> 11 \<and> \<not> fault_at 0 (bus_of [(0x20, 0x7C)] [])
   \<and> (\<exists>enc st bus'. setOutputDataRate_encode 0 2 = Some enc
       \<and> LIS3MDL_setOutputDataRate 0 2 (bus_of [(0x20, 0x7C)] []) = (st, bus')
       \<and> accesses bus' = accesses (bus_of [(0x20, 0x7C)] []) @
            [I2C_READ I2C_BUS_ADDR REG_CTRL_REG_1 NUM_OF_BYTES_1,
             I2C_WRITE I2C_BUS_ADDR REG_CTRL_REG_1 NUM_OF_BYTES_1
               [registers (bus_of [(0x20, 0x7C)] []) REG_CTRL_REG_1 OR enc]]
       \<and> (\<forall>n. bit (registers (bus_of [(0x20, 0x7C)] []) REG_CTRL_REG_1) n \<longrightarrow>
                bit (registers (bus_of [(0x20, 0x7C)] []) REG_CTRL_REG_1 OR enc) n)
       \<and> (\<not> fault_at 1 (bus_of [(0x20, 0x7C)] []) \<longrightarrow> st = STATUS_MAG_OK
            \<and> registers bus' REG_CTRL_REG_1
                = registers (bus_of [(0x20, 0x7C)] []) REG_CTRL_REG_1 OR enc))
   \<and> \<not> fault_at 1 (bus_of [(0x20, 0x7C)] [])
   \<and> bit (registers (bus_of [(0x20, 0x7C)] []) REG_CTRL_REG_1) 6"
proof -
  have r: "(2::u8) \<le> 11" by simp
  have b: "\<not> fault_at 0 (bus_of [(0x20, 0x7C)] [])" "\<not> fault_at 1 (bus_of [(0x20, 0x7C)] [])"
    "bit (registers (bus_of [(0x20, 0x7C)] []) REG_CTRL_REG_1) 6"
    by (simp_all add: bus_of_sel fault_at_def REG_CTRL_REG_1_def)
  from setOutputDataRate_ors_previous_byte [OF r b(1), of 0] r b
  show ?thesis by blast
qed

text \<open>
  C10. For every control register 1 byte with the fast flag (bit 1) set, the decoding of
  \<open>LIS3MDL_getOutputDataRate\<close> gives \<open>STATUS_MAG_OK\<close> and one of the rate codes 8, 9,
  10, 11, and so does the operation itself with a non-null pointer and a successful read:
  the \<open>STATUS_MAG_ERROR\<close> branch of its \<open>switch\<close> is never taken.
\<close>

theorem getOutputDataRate_fast_flag_set:
  assumes "bit reg 1"
  shows "(\<exists>r. getOutputDataRate_decode reg p = (STATUS_MAG_OK, Some r) \<and> r \<in> {8, 9, 10, 11})
       \<and> (registers bus REG_CTRL_REG_1 = reg \<and> \<not> fault_at 0 bus \<longrightarrow>
           (\<exists>r bus'. LIS3MDL_getOutputDataRate (Some d) bus = (STATUS_MAG_OK, Some r, bus')
               \<and> r \<in> {8, 9, 10, 11}))"
proof -
  have fast: "drop_bit 1 reg AND 1 \<noteq> 0"
    using assms by (simp add: bit_iff_and_drop_bit_eq_1)
  have "drop_bit 5 reg AND 3 \<le> 3" by (rule word_and_le1)
  then have om: "drop_bit 5 reg AND 3 \<in> {0, 1, 2, 3}" by (rule le3_cases)
  have dec: "\<exists>r. getOutputDataRate_decode reg q = (STATUS_MAG_OK, Some r) \<and> r \<in> {8, 9, 10, 11}"
    for q
    using fast om by (auto simp only: decode_word if_False if_True) simp_all
  have "\<exists>r bus'. LIS3MDL_getOutputDataRate (Some d) bus = (STATUS_MAG_OK, Some r, bus')
          \<and> r \<in> {8, 9, 10, 11}"
    if "registers bus REG_CTRL_REG_1 = reg" "\<not> fault_at 0 bus"
  proof -
    obtain r where "getOutputDataRate_decode reg (Some d) = (STATUS_MAG_OK, Some r)"
      and "r \<in> {8, 9, 10, 11}"
      using dec by blast
    then show ?thesis using that by (simp add: getOutputDataRate_result Let_def)
  qed
  with dec show ?thesis by blast
qed

theorem getOutputDataRate_fast_flag_set_witness:
  "bit (0x42 :: u8) 1
   \<and> (\<exists>r. getOutputDataRate_decode 0x42 None = (STATUS_MAG_OK, Some r) \<and> r \<in> {8, 9, 10, 11})
   \<and> registers (bus_of [(0x20, 0x42)] []) REG_CTRL_REG_1 = 0x42
   \<and> \<not> fault_at 0 (bus_of [(0x20, 0x42)] [])
   \<and> (\<exists>r bus'. LIS3MDL_getOutputDataRate (Some 0) (bus_of [(0x20, 0x42)] [])
          = (STATUS_MAG_OK, Some r, bus') \<and> r \<in> {8, 9, 10, 11})"
proof -
  have f: "bit (0x42 :: u8) 1" by simp
  have b: "registers (bus_of [(0x20, 0x42)] []) REG_CTRL_REG_1 = 0x42
      \<and> \<not> fault_at 0 (bus_of [(0x20, 0x42)] [])"
    by (simp add: bus_of_sel fault_at_def REG_CTRL_REG_1_def)
  from getOutputDataRate_fast_flag_set [OF f, of None "bus_of [(0x20, 0x42)] []" 0] f b
  show ?thesis by blast
qed

end
